theory Spec2Isabelle
  imports Main "HOL-Library.Char_ord" "HOL-Library.List_Lexorder"
begin

section \<open>Python values shared by all components\<close>

text \<open>
  Exceptions raised by the modelled code. \<open>DisabledError\<close> and
  \<open>CircularCallError\<close> are the two \<open>ValueError\<close> subclasses declared in
  \<open>ListboxVidget\<close>; \<open>RecursionError\<close> is what the interpreter raises when
  the call stack of a recursive method is exhausted; \<open>PyWinError\<close> is
  \<open>pywintypes.error\<close>; \<open>TclError\<close> is what a call to a toolkit widget
  raises when the widget refuses it.
\<close>

datatype exn =
    ValueError
  | TypeError
  | IndexError
  | KeyError
  | DisabledError
  | CircularCallError
  | RecursionError
  | PyWinError
  | OverflowError
  | TclError

section \<open>eventor.py: the event notification primitive\<close>

text \<open>
  An event name is a Python string; the key \<open>None\<close> of the handlers dict means
  "every event".
\<close>

type_synonym event = "string option"

text \<open>
  \<open>_EventHandlerWrapper\<close>: the original handler and whether it wants the event
  argument. Handlers are client code; they are identified by a value of type \<open>'h\<close>.
\<close>

record 'h wrapper =
  handler :: 'h
  need_arg :: bool

text \<open>\<open>_EventHandlerWrapper.__eq__\<close>: two wrappers are equal when the wrapped handlers are.\<close>

definition wrapper_eq :: "'h wrapper \<Rightarrow> 'h wrapper \<Rightarrow> bool" where
  "wrapper_eq w other = (handler w = handler other)"

text \<open>
  The argument a handler receives: the raw argument, or the \<open>Event\<close> object
  (event name, argument, notifier) built when \<open>need_info\<close> is set.
\<close>

datatype ('a, 'n) evarg = Plain 'a | Event event 'a 'n

text \<open>
  One handler invocation: the handler called, and the argument it was called with
  (\<open>None\<close> when it is called without argument). Handlers are code outside the
  component: the model records every invocation in order, taking each handler to return
  normally and not to call back into the notifying object.
\<close>

datatype ('h, 'x) call = Call 'h "'x option"

text \<open>\<open>_EventHandlerWrapper.__call__\<close>\<close>

definition wrapper_call :: "'h wrapper \<Rightarrow> 'x \<Rightarrow> ('h, 'x) call" where
  "wrapper_call w arg = (if need_arg w then Call (handler w) (Some arg) else Call (handler w) None)"

text \<open>The dict \<open>_event_handlers\<close>: event name to the list of its handler wrappers.\<close>

type_synonym 'h event_handlers = "event \<rightharpoonup> 'h wrapper list"

definition Eventor_init :: "'h event_handlers" where
  "Eventor_init = Map.empty"

text \<open>\<open>Eventor.handler_add\<close>\<close>

definition handler_add ::
  "'h event_handlers \<Rightarrow> event \<Rightarrow> 'h \<Rightarrow> bool \<Rightarrow> exn + 'h event_handlers" where
  "handler_add eh event h na =
     (let handler_wrapper = \<lparr>handler = h, need_arg = na\<rparr> in
      case eh event of
        None \<Rightarrow> Inr (eh(event \<mapsto> [handler_wrapper]))
      | Some hs \<Rightarrow>
          if list_ex (wrapper_eq handler_wrapper) hs then Inl ValueError
          else Inr (eh(event \<mapsto> hs @ [handler_wrapper])))"

text \<open>\<open>Eventor.handler_remove_all\<close>\<close>

definition handler_remove_all :: "'h event_handlers \<Rightarrow> 'h event_handlers" where
  "handler_remove_all eh = Map.empty"

text \<open>
  \<open>Eventor.handler_notify\<close>. The result is the sequence of handler invocations the
  call performs; the handlers dict itself is not touched. \<open>self\<close> is the notifying
  object, used as notifier of the \<open>Event\<close> object when none is given.
\<close>

definition handler_notify ::
  "'h event_handlers \<Rightarrow> 'n \<Rightarrow> event \<Rightarrow> 'a \<Rightarrow> 'n option \<Rightarrow> bool \<Rightarrow> ('h, ('a, 'n) evarg) call list" where
  "handler_notify eh self event arg notifier need_info =
     (if eh event = None \<and> eh None = None then []
      else
        let arg' = (if need_info
                    then Event event arg (case notifier of Some n \<Rightarrow> n | None \<Rightarrow> self)
                    else Plain arg)
        in (case eh event of Some hs \<Rightarrow> map (\<lambda>w. wrapper_call w arg') hs | None \<Rightarrow> [])
         @ (case eh None of Some hs \<Rightarrow> map (\<lambda>w. wrapper_call w arg') hs | None \<Rightarrow> []))"

text \<open>
  The specification's view: the handlers registered for a key, in registration order
  (none when the key was never used), and the argument the handlers are given.
\<close>

definition registered :: "'h event_handlers \<Rightarrow> event \<Rightarrow> 'h wrapper list" where
  "registered eh k = (case eh k of None \<Rightarrow> [] | Some hs \<Rightarrow> hs)"

definition passed_arg :: "'n \<Rightarrow> event \<Rightarrow> 'a \<Rightarrow> 'n option \<Rightarrow> bool \<Rightarrow> ('a, 'n) evarg" where
  "passed_arg self event arg notifier need_info =
     (if need_info then Event event arg (case notifier of Some n \<Rightarrow> n | None \<Rightarrow> self)
      else Plain arg)"

section \<open>registry.py: key objects\<close>

text \<open>The five hives of \<open>_HIVE_NAME_TO_INT\<close>.\<close>

datatype hive =
    HKEY_CLASSES_ROOT
  | HKEY_CURRENT_CONFIG
  | HKEY_CURRENT_USER
  | HKEY_LOCAL_MACHINE
  | HKEY_USERS

definition hive_name_to_int :: "string \<Rightarrow> hive option" where
  "hive_name_to_int name =
     (if name = ''HKEY_CLASSES_ROOT'' then Some HKEY_CLASSES_ROOT
      else if name = ''HKEY_CURRENT_CONFIG'' then Some HKEY_CURRENT_CONFIG
      else if name = ''HKEY_CURRENT_USER'' then Some HKEY_CURRENT_USER
      else if name = ''HKEY_LOCAL_MACHINE'' then Some HKEY_LOCAL_MACHINE
      else if name = ''HKEY_USERS'' then Some HKEY_USERS
      else None)"

text \<open>Permission masks, with the values of \<open>win32con\<close>.\<close>

definition KEY_READ :: nat where "KEY_READ = 0x20019"
definition KEY_ALL_ACCESS :: nat where "KEY_ALL_ACCESS = 0xF003F"
definition KEY_WOW64_64KEY :: nat where "KEY_WOW64_64KEY = 0x100"

text \<open>The path separator, a backslash.\<close>

definition sep :: char where
  "sep = CHR 0x5C"

text \<open>\<open>str.partition\<close> at the first separator: head, separator found, tail.\<close>

definition partition_sep :: "string \<Rightarrow> string \<times> string \<times> string" where
  "partition_sep s =
     (case dropWhile (\<lambda>c. c \<noteq> sep) s of
        [] \<Rightarrow> (s, [], [])
      | c # rest \<Rightarrow> (takeWhile (\<lambda>c. c \<noteq> sep) s, [c], rest))"

text \<open>
  The operating system's \<open>RegOpenKeyEx\<close> is a parameter of the model: given hive,
  sub-path and mask it yields a handle, or \<open>None\<close> where the call raises
  \<open>pywintypes.error\<close>.
\<close>

type_synonym reg_open = "hive \<Rightarrow> string option \<Rightarrow> nat \<Rightarrow> nat option"

text \<open>
  \<open>_regkey_handle_get\<close>. The default mask is
  \<open>KEY_ALL_ACCESS | KEY_WOW64_64KEY\<close>; the two constants share no bit, so the
  bitwise or is their sum.
\<close>

definition regkey_handle_get :: "reg_open \<Rightarrow> string \<Rightarrow> nat option \<Rightarrow> exn + nat" where
  "regkey_handle_get RegOpenKeyEx path perm =
     (case partition_sep path of (hive_name, _, nohive_path) \<Rightarrow>
        let nohive_path' = (if nohive_path = [] then None else Some nohive_path) in
        case hive_name_to_int hive_name of
          None \<Rightarrow> Inl ValueError
        | Some hive_int \<Rightarrow>
            let perm' = (case perm of None \<Rightarrow> KEY_ALL_ACCESS + KEY_WOW64_64KEY | Some m \<Rightarrow> m) in
            (case RegOpenKeyEx hive_int nohive_path' perm' of
               None \<Rightarrow> Inl PyWinError
             | Some regkey_handle \<Rightarrow> Inr regkey_handle))"

text \<open>
  A key object: its class (\<open>RegKey\<close> or the subclass \<open>RootRegKey\<close>), its handle
  (\<open>None\<close> once closed, and always \<open>None\<close> for the root key) and its path.
\<close>

datatype regkey_class = RegKey | RootRegKey

record regkey =
  rk_class :: regkey_class
  rk_handle :: "nat option"
  rk_path :: string

definition ROOT :: string where
  "ROOT = []"

definition RegKey_init :: "nat \<Rightarrow> string \<Rightarrow> regkey" where
  "RegKey_init h path = \<lparr>rk_class = RegKey, rk_handle = Some h, rk_path = path\<rparr>"

definition RootRegKey_init :: regkey where
  "RootRegKey_init = \<lparr>rk_class = RootRegKey, rk_handle = None, rk_path = []\<rparr>"

text \<open>\<open>regkey_get\<close>: every failure of \<open>_regkey_handle_get\<close> is caught and gives \<open>None\<close>.\<close>

definition regkey_get :: "reg_open \<Rightarrow> string \<Rightarrow> nat option \<Rightarrow> regkey option" where
  "regkey_get RegOpenKeyEx path perm =
     (if path = ROOT then Some RootRegKey_init
      else case regkey_handle_get RegOpenKeyEx path perm of
             Inl e \<Rightarrow> None
           | Inr regkey_handle \<Rightarrow> Some (RegKey_init regkey_handle path))"

text \<open>\<open>closed\<close>, with the override of \<open>RootRegKey\<close>.\<close>

definition closed :: "regkey \<Rightarrow> bool" where
  "closed k = (case rk_class k of RootRegKey \<Rightarrow> False | RegKey \<Rightarrow> rk_handle k = None)"

text \<open>
  \<open>close\<close>, with the override of \<open>RootRegKey\<close>. The result is the exception raised,
  if any, the key object afterwards, and the handles given to \<open>RegCloseKey\<close>.
\<close>

definition close :: "regkey \<Rightarrow> exn option \<times> regkey \<times> nat list" where
  "close k =
     (case rk_class k of
        RootRegKey \<Rightarrow> (None, k, [])
      | RegKey \<Rightarrow>
          if closed k then (Some ValueError, k, [])
          else (None, k\<lparr>rk_handle := None\<rparr>,
                case rk_handle k of Some h \<Rightarrow> [h] | None \<Rightarrow> []))"

text \<open>Calling \<open>close\<close> \<open>n\<close> times in a row, stopping at the first call that raises.\<close>

fun close_times :: "nat \<Rightarrow> regkey \<Rightarrow> exn option \<times> regkey" where
  "close_times 0 k = (None, k)"
| "close_times (Suc n) k =
     (case close k of
        (Some e, k', _) \<Rightarrow> (Some e, k')
      | (None, k', _) \<Rightarrow> close_times n k')"

text \<open>
  \<open>regkey_exists\<close>. The key object it closes was just made by \<open>regkey_get\<close>:
  it is the root key or holds a handle, so that \<open>close\<close> returns normally.
\<close>

definition regkey_exists :: "reg_open \<Rightarrow> string \<Rightarrow> bool" where
  "regkey_exists RegOpenKeyEx path =
     (case regkey_get RegOpenKeyEx path (Some KEY_READ) of
        Some regkey \<Rightarrow> (case close regkey of (_, _, _) \<Rightarrow> True)
      | None \<Rightarrow> False)"

section \<open>registry.py: the path navigator\<close>

record 'h navigator =
  nav_path :: string
  nav_event_handlers :: "'h event_handlers"

definition PATH_CHANGE_SOON :: event where
  "PATH_CHANGE_SOON = Some ''PATH_CHANGE_SOON''"

definition PATH_CHANGE_DONE :: event where
  "PATH_CHANGE_DONE = Some ''PATH_CHANGE_DONE''"

text \<open>\<open>RegKeyPathNavigator.path\<close>\<close>

definition path :: "'h navigator \<Rightarrow> string" where
  "path nav = nav_path nav"

text \<open>
  \<open>RegKeyPathNavigator.go_to_path\<close>. Both notifications pass the navigator itself as
  event argument: a handler sees the navigator as it is at the moment of the call. The
  result is the exception raised or the value returned, the navigator afterwards, and the
  handler invocations made.
\<close>

definition go_to_path ::
  "reg_open \<Rightarrow> string \<Rightarrow> bool \<Rightarrow> 'h navigator \<Rightarrow>
   (exn + string) \<times> 'h navigator \<times> ('h, ('h navigator, unit) evarg) call list" where
  "go_to_path RegOpenKeyEx p check nav =
     (if check \<and> \<not> regkey_exists RegOpenKeyEx p then (Inl ValueError, nav, [])
      else
        let t1 = handler_notify (nav_event_handlers nav) () PATH_CHANGE_SOON nav None False;
            nav' = nav\<lparr>nav_path := p\<rparr>;
            t2 = handler_notify (nav_event_handlers nav') () PATH_CHANGE_DONE nav' None False
        in (Inr (nav_path nav'), nav', t1 @ t2))"

section \<open>listbox.py: the selectable list\<close>

text \<open>
  The largest index a list operation takes, \<open>sys.maxsize\<close> of a 64-bit
  interpreter. \<open>list.insert\<close> raises \<open>OverflowError\<close> for an index that
  does not fit; otherwise a negative index counts from the end, and an index beyond
  either end is clamped to that end.
\<close>

definition PY_SSIZE_T_MAX :: int where
  "PY_SSIZE_T_MAX = 2 ^ 63 - 1"

definition py_insert :: "int \<Rightarrow> 'a \<Rightarrow> 'a list \<Rightarrow> exn + 'a list" where
  "py_insert i x xs =
     (if i > PY_SSIZE_T_MAX \<or> i < - PY_SSIZE_T_MAX - 1 then Inl OverflowError
      else
        let n = int (length xs);
            j = (if i < 0 then (if i + n < 0 then 0 else i + n) else if i > n then n else i)
        in Inr (take (nat j) xs @ [x] @ drop (nat j) xs))"

text \<open>\<open>del xs[i]\<close>: a negative index counts from the end; out of range it raises.\<close>

definition py_del :: "int \<Rightarrow> 'a list \<Rightarrow> exn + 'a list" where
  "py_del i xs =
     (let n = int (length xs); j = (if i < 0 then i + n else i)
      in if 0 \<le> j \<and> j < n then Inr (take (nat j) xs @ drop (Suc (nat j)) xs)
         else Inl IndexError)"

text \<open>
  The state of a \<open>ListboxVidget\<close>: the items, the cached active index, the two
  flags, and the handlers dict it inherits from \<open>Eventor\<close>. Of the toolkit's listbox
  widget the model keeps whether its \<open>state\<close> option is other than
  \<open>DISABLED\<close>, and the number of rows it holds: \<open>itemconfig\<close> raises
  \<open>TclError\<close> for an index that is not a row of the widget, and the widget takes
  no \<open>insert\<close> or \<open>delete\<close> while it is disabled. The texts, colours,
  selection and focus of the widget are written by the methods and never read by them;
  \<open>selection_clear\<close>, \<open>selection_set\<close>, \<open>activate\<close>, \<open>see\<close> and
  \<open>focus_set\<close> accept every index. The argument of \<open>items_set\<close> is a list by
  its type, and the item-to-text function is taken to return normally.
\<close>

record ('a, 'h) listbox =
  lb_items :: "'a list"
  lb_indexcur :: int
  lb_is_changing :: bool
  lb_is_resetting :: bool
  lb_enabled :: bool
  lb_widget_size :: nat
  lb_event_handlers :: "'h event_handlers"

text \<open>
  What a method call gives: the exception raised, if any, the listbox afterwards, and
  the handler invocations made.
\<close>

type_synonym ('a, 'h, 'x) lb_result =
  "exn option \<times> ('a, 'h) listbox \<times> ('h, ('x option, unit) evarg) call list"

definition ITEMS_CHANGE_SOON :: event where
  "ITEMS_CHANGE_SOON = Some ''ITEMS_CHANGE_SOON''"

definition ITEMS_CHANGE_DONE :: event where
  "ITEMS_CHANGE_DONE = Some ''ITEMS_CHANGE_DONE''"

definition ITEMCUR_CHANGE_SOON :: event where
  "ITEMCUR_CHANGE_SOON = Some ''ITEMCUR_CHANGE_SOON''"

definition ITEMCUR_CHANGE_DONE :: event where
  "ITEMCUR_CHANGE_DONE = Some ''ITEMCUR_CHANGE_DONE''"

text \<open>\<open>self.handler_notify(event, arg)\<close> as the listbox calls it.\<close>

definition lb_notify ::
  "('a, 'h) listbox \<Rightarrow> event \<Rightarrow> 'x option \<Rightarrow> ('h, ('x option, unit) evarg) call list" where
  "lb_notify lb event arg = handler_notify (lb_event_handlers lb) () event arg None False"

definition is_enabled :: "('a, 'h) listbox \<Rightarrow> bool" where
  "is_enabled lb = lb_enabled lb"

definition is_changing :: "('a, 'h) listbox \<Rightarrow> bool" where
  "is_changing lb = lb_is_changing lb"

definition size_items :: "('a, 'h) listbox \<Rightarrow> int" where
  "size_items lb = int (length (lb_items lb))"

definition index_is_valid :: "('a, 'h) listbox \<Rightarrow> int \<Rightarrow> bool" where
  "index_is_valid lb index = (0 \<le> index \<and> index < size_items lb)"

definition index_is_valid_or_void :: "('a, 'h) listbox \<Rightarrow> int \<Rightarrow> bool" where
  "index_is_valid_or_void lb index = (index = -1 \<or> index_is_valid lb index)"

definition index_last :: "('a, 'h) listbox \<Rightarrow> int" where
  "index_last lb = size_items lb - 1"

text \<open>\<open>_indexcurs\<close> with \<open>internal=False\<close>, the only way the methods below call it.\<close>

definition indexcurs :: "('a, 'h) listbox \<Rightarrow> int list" where
  "indexcurs lb = (if index_is_valid lb (lb_indexcur lb) then [lb_indexcur lb] else [])"

text \<open>\<open>indexcur\<close> with \<open>raise_error=False\<close>.\<close>

definition indexcur :: "('a, 'h) listbox \<Rightarrow> int" where
  "indexcur lb = (case indexcurs lb of i # _ \<Rightarrow> i | [] \<Rightarrow> -1)"

text \<open>Whether an index is a row of the widget, that is, whether \<open>itemconfig\<close> takes it.\<close>

definition widget_has_row :: "('a, 'h) listbox \<Rightarrow> int \<Rightarrow> bool" where
  "widget_has_row lb index = (0 \<le> index \<and> index < int (lb_widget_size lb))"

text \<open>
  \<open>_listbox_widget_update\<close>. The rows are deleted and one row is inserted and
  configured for each item; a disabled widget keeps its rows, and configuring a row it
  lacks raises. Then the cached index is kept or cleared, and the row of a cached index
  other than -1 is configured, which raises when the widget lacks it.
\<close>

definition listbox_widget_update ::
  "bool \<Rightarrow> ('a, 'h) listbox \<Rightarrow> exn option \<times> ('a, 'h) listbox" where
  "listbox_widget_update keep_active lb =
     (if \<not> lb_enabled lb \<and> lb_widget_size lb < length (lb_items lb) then (Some TclError, lb)
      else
        let lb1 = (if lb_enabled lb then lb\<lparr>lb_widget_size := length (lb_items lb)\<rparr> else lb);
            lb2 = (if keep_active then lb1 else lb1\<lparr>lb_indexcur := -1\<rparr>);
            indexcur' = lb_indexcur lb2
        in if indexcur' \<noteq> -1 \<and> \<not> widget_has_row lb2 indexcur' then (Some TclError, lb2)
           else (None, lb2))"

text \<open>\<open>ListboxVidget.__init__\<close>: a new widget is enabled and has no rows.\<close>

definition ListboxVidget_init :: "'a list option \<Rightarrow> ('a, 'h) listbox" where
  "ListboxVidget_init items =
     snd (listbox_widget_update False
       \<lparr>lb_items = (case items of Some xs \<Rightarrow> xs | None \<Rightarrow> []),
        lb_indexcur = -1,
        lb_is_changing = False,
        lb_is_resetting = False,
        lb_enabled = True,
        lb_widget_size = 0,
        lb_event_handlers = Eventor_init\<rparr>)"

text \<open>\<open>items_set\<close>\<close>

definition items_set ::
  "'a list \<Rightarrow> bool \<Rightarrow> bool \<Rightarrow> ('a, 'h) listbox \<Rightarrow> ('a, 'h, 'x) lb_result" where
  "items_set items notify keep_active lb =
     (if \<not> is_enabled lb then (Some DisabledError, lb, [])
      else if lb_is_changing lb then (Some CircularCallError, lb, [])
      else
        let lb1 = lb\<lparr>lb_is_changing := True\<rparr>;
            t1 = (if notify then lb_notify lb1 ITEMS_CHANGE_SOON None else []);
            lb2 = lb1\<lparr>lb_items := items\<rparr>
        in case listbox_widget_update keep_active lb2 of
             (Some e, lb3) \<Rightarrow> (Some e, lb3, t1)
           | (None, lb3) \<Rightarrow>
               let t2 = (if notify then lb_notify lb3 ITEMS_CHANGE_DONE None else []);
                   lb4 = lb3\<lparr>lb_is_changing := False\<rparr>
               in (None, lb4, t1 @ t2))"

text \<open>
  \<open>indexcur_set\<close>. Between the two notifications the rows of the old and of the
  new active index are configured: the old one when it is valid for the items, the new
  one when it is not -1.
\<close>

definition indexcur_set ::
  "int \<Rightarrow> bool \<Rightarrow> bool \<Rightarrow> 'x option \<Rightarrow> ('a, 'h) listbox \<Rightarrow> ('a, 'h, 'x) lb_result" where
  "indexcur_set index focus notify notify_arg lb =
     (if \<not> index_is_valid_or_void lb index then (Some IndexError, lb, [])
      else if \<not> is_enabled lb then (Some DisabledError, lb, [])
      else if lb_is_changing lb then (Some CircularCallError, lb, [])
      else
        let lb1 = lb\<lparr>lb_is_changing := True\<rparr>;
            old_indexcur = lb_indexcur lb1;
            lb2 = lb1\<lparr>lb_is_resetting := (index = old_indexcur)\<rparr>;
            t1 = (if notify then lb_notify lb2 ITEMCUR_CHANGE_SOON notify_arg else [])
        in if index_is_valid lb2 old_indexcur \<and> \<not> widget_has_row lb2 old_indexcur
           then (Some TclError, lb2, t1)
           else
             let lb3 = lb2\<lparr>lb_indexcur := index\<rparr> in
             if index \<noteq> -1 \<and> \<not> widget_has_row lb3 index then (Some TclError, lb3, t1)
             else
               let t2 = (if notify then lb_notify lb3 ITEMCUR_CHANGE_DONE notify_arg else []);
                   lb4 = lb3\<lparr>lb_is_resetting := False\<rparr>;
                   lb5 = lb4\<lparr>lb_is_changing := False\<rparr>
               in (None, lb5, t1 @ t2))"

text \<open>\<open>item_insert\<close>\<close>

definition item_insert ::
  "'a \<Rightarrow> int option \<Rightarrow> bool \<Rightarrow> bool \<Rightarrow> ('a, 'h) listbox \<Rightarrow> ('a, 'h, 'x) lb_result" where
  "item_insert item index notify keep_active lb =
     (let t1 = (if notify
                then lb_notify lb ITEMCUR_CHANGE_SOON None @ lb_notify lb ITEMS_CHANGE_SOON None
                else []);
          active_index = indexcur lb;
          index' = (case index of None \<Rightarrow> active_index | Some i \<Rightarrow> i)
      in case py_insert index' item (lb_items lb) of
           Inl e \<Rightarrow> (Some e, lb, t1)
         | Inr items' \<Rightarrow>
             let lb1 = lb\<lparr>lb_items := items'\<rparr>;
                 active_index' = (if active_index \<noteq> -1
                                  then (if active_index \<ge> index' then active_index + 1
                                        else active_index)
                                  else active_index)
             in case indexcur_set active_index' False False None lb1 of
                  (Some e, lb2, t2) \<Rightarrow> (Some e, lb2, t1 @ t2)
                | (None, lb2, t2) \<Rightarrow>
                    (case listbox_widget_update keep_active lb2 of
                       (Some e, lb3) \<Rightarrow> (Some e, lb3, t1 @ t2)
                     | (None, lb3) \<Rightarrow>
                         let t3 = (if notify
                                   then lb_notify lb3 ITEMS_CHANGE_DONE None
                                      @ lb_notify lb3 ITEMCUR_CHANGE_DONE None
                                   else [])
                         in (None, lb3, t1 @ t2 @ t3)))"

text \<open>\<open>item_remove\<close>\<close>

definition item_remove ::
  "int \<Rightarrow> bool \<Rightarrow> bool \<Rightarrow> ('a, 'h) listbox \<Rightarrow> ('a, 'h, 'x) lb_result" where
  "item_remove index notify keep_active lb =
     (if \<not> index_is_valid lb index then (Some ValueError, lb, [])
      else
        let t1 = (if notify
                  then lb_notify lb ITEMCUR_CHANGE_SOON None @ lb_notify lb ITEMS_CHANGE_SOON None
                  else []);
            active_index = indexcur lb
        in case py_del index (lb_items lb) of
             Inl e \<Rightarrow> (Some e, lb, t1)
           | Inr items' \<Rightarrow>
               let lb1 = lb\<lparr>lb_items := items'\<rparr>;
                   active_index' = (if active_index \<noteq> -1
                                    then (if active_index > index_last lb1 then index_last lb1
                                          else active_index)
                                    else active_index)
               in case indexcur_set active_index' False False None lb1 of
                    (Some e, lb2, t2) \<Rightarrow> (Some e, lb2, t1 @ t2)
                  | (None, lb2, t2) \<Rightarrow>
                      (case listbox_widget_update keep_active lb2 of
                         (Some e, lb3) \<Rightarrow> (Some e, lb3, t1 @ t2)
                       | (None, lb3) \<Rightarrow>
                           let t3 = (if notify
                                     then lb_notify lb3 ITEMS_CHANGE_DONE None
                                        @ lb_notify lb3 ITEMCUR_CHANGE_DONE None
                                     else [])
                           in (None, lb3, t1 @ t2 @ t3)))"

text \<open>The parts of a method call's result.\<close>

definition lb_raised :: "('a, 'h, 'x) lb_result \<Rightarrow> exn option" where
  "lb_raised r = fst r"

definition lb_after :: "('a, 'h, 'x) lb_result \<Rightarrow> ('a, 'h) listbox" where
  "lb_after r = fst (snd r)"

text \<open>
  The state a listbox is in between method calls that returned: the widget shows one
  row for each item, and the cached active index is -1 or valid.
\<close>

definition in_step :: "('a, 'h) listbox \<Rightarrow> bool" where
  "in_step lb =
     (lb_widget_size lb = length (lb_items lb) \<and> index_is_valid_or_void lb (lb_indexcur lb))"

section \<open>text.py: the text entry\<close>

text \<open>The widget states of \<open>tkinter.constants\<close>.\<close>

definition NORMAL :: string where "NORMAL = ''normal''"
definition DISABLED :: string where "DISABLED = ''disabled''"
definition ACTIVE :: string where "ACTIVE = ''active''"

text \<open>
  The state of an \<open>EntryVidget\<close>: the cached text, the validator function (which
  returns a truth value or raises), the changing flag, the remembered widget state, and the
  handlers dict inherited from \<open>Eventor\<close>. Of the toolkit's text widget the model
  keeps its value, its \<open>state\<close> option and whether the validator wrapper is mounted
  as its \<open>validatecommand\<close>.
\<close>

record 'h entry =
  en_text :: string
  en_validator :: "string \<Rightarrow> exn + bool"
  en_is_changing :: bool
  en_old_widget_state :: string
  en_widget_text :: string
  en_widget_state :: string
  en_validator_mounted :: bool
  en_event_handlers :: "'h event_handlers"

text \<open>
  What a method call gives: the exception raised, if any, the entry afterwards, and the
  handler invocations made. The change events carry an \<open>Event\<close> object whose
  notifier is the entry itself, as it is when the event is notified.
\<close>

type_synonym ('h, 'x) en_result =
  "exn option \<times> 'h entry \<times> ('h, ('x option, 'h entry) evarg) call list"

definition TEXT_CHANGE_SOON :: event where
  "TEXT_CHANGE_SOON = Some ''TEXT_CHANGE_SOON''"

definition TEXT_CHANGE_DONE :: event where
  "TEXT_CHANGE_DONE = Some ''TEXT_CHANGE_DONE''"

text \<open>\<open>EntryVidget.text\<close>\<close>

definition text_of :: "'h entry \<Rightarrow> string" where
  "text_of e = en_text e"

text \<open>\<open>EntryVidget.text_is_valid\<close>\<close>

definition text_is_valid :: "'h entry \<Rightarrow> string \<Rightarrow> exn + bool" where
  "text_is_valid e t = en_validator e t"

text \<open>\<open>EntryVidget.state_set\<close> and \<open>state_set_back\<close>\<close>

definition state_set :: "string \<Rightarrow> 'h entry \<Rightarrow> exn + 'h entry" where
  "state_set st e =
     (if st \<notin> set [NORMAL, DISABLED, ACTIVE] then Inl ValueError
      else Inr (e\<lparr>en_old_widget_state := en_widget_state e, en_widget_state := st\<rparr>))"

definition state_set_back :: "'h entry \<Rightarrow> exn + 'h entry" where
  "state_set_back e =
     (if en_old_widget_state e \<notin> set [NORMAL, DISABLED, ACTIVE] then Inl ValueError
      else Inr (e\<lparr>en_widget_state := en_old_widget_state e\<rparr>))"

text \<open>
  The part of \<open>text_set\<close> that writes the text widget when the caller is not the
  validator: unmount the wrapper, set the widget to \<open>NORMAL\<close>, replace its value,
  set the state back, mount the wrapper.
\<close>

definition widget_value_set :: "string \<Rightarrow> 'h entry \<Rightarrow> exn option \<times> 'h entry" where
  "widget_value_set t e =
     (let e1 = e\<lparr>en_validator_mounted := False\<rparr> in
      case state_set NORMAL e1 of
        Inl x \<Rightarrow> (Some x, e1)
      | Inr e2 \<Rightarrow>
          let e3 = e2\<lparr>en_widget_text := t\<rparr> in
          (case state_set_back e3 of
             Inl x \<Rightarrow> (Some x, e3)
           | Inr e4 \<Rightarrow> (None, e4\<lparr>en_validator_mounted := True\<rparr>)))"

text \<open>
  \<open>EntryVidget.text_set\<close>. An exception raised while the widget is written leaves
  the entry as it is at the point of the \<open>raise\<close>, the changing flag still on.
\<close>

definition text_set ::
  "string \<Rightarrow> bool \<Rightarrow> 'x option \<Rightarrow> bool \<Rightarrow> 'h entry \<Rightarrow> ('h, 'x) en_result" where
  "text_set t notify notify_arg is_validator e =
     (case text_is_valid e t of
        Inl x \<Rightarrow> (Some x, e, [])
      | Inr valid \<Rightarrow>
          if \<not> valid then (Some ValueError, e, [])
          else if en_is_changing e then (Some ValueError, e, [])
          else
            let e1 = e\<lparr>en_is_changing := True\<rparr>;
                t1 = (if notify
                      then handler_notify (en_event_handlers e1) e1 TEXT_CHANGE_SOON notify_arg None True
                      else []);
                e2 = e1\<lparr>en_text := t\<rparr>
            in case (if \<not> is_validator then widget_value_set t e2 else (None, e2)) of
                 (Some x, e3) \<Rightarrow> (Some x, e3, t1)
               | (None, e3) \<Rightarrow>
                   if en_text e3 \<noteq> en_widget_text e3 \<and> \<not> is_validator
                   then (Some ValueError, e3\<lparr>en_is_changing := False\<rparr>, t1)
                   else
                     let t2 = (if notify
                               then handler_notify (en_event_handlers e3) e3 TEXT_CHANGE_DONE
                                      notify_arg None True
                               else [])
                     in (None, e3\<lparr>en_is_changing := False\<rparr>, t1 @ t2))"

text \<open>
  The validator wrapper made by \<open>_validator_wrapper_create\<close>, which the toolkit
  calls with the would-be value at every key stroke. It returns the validation result or
  raises.
\<close>

definition validator_wrapper ::
  "string \<Rightarrow> 'h entry \<Rightarrow>
   (exn + bool) \<times> 'h entry \<times> ('h, ('x option, 'h entry) evarg) call list" where
  "validator_wrapper new_value e =
     (if en_is_changing e then (Inl ValueError, e, [])
      else
        let is_valid = (case en_validator e new_value of Inl x \<Rightarrow> False | Inr v \<Rightarrow> v) in
        if is_valid then
          (if en_is_changing e then (Inl ValueError, e, [])
           else case text_set new_value True None True e of
                  (Some x, e', t) \<Rightarrow> (Inl x, e', t)
                | (None, e', t) \<Rightarrow>
                    if en_is_changing e' then (Inl ValueError, e', t)
                    else (Inr is_valid, e', t))
        else (Inr is_valid, e, []))"

text \<open>
  A key stroke in the widget: with the wrapper mounted the toolkit asks it, and takes
  the new value into the widget when it answers true.
\<close>

definition key_stroke :: "string \<Rightarrow> 'h entry \<Rightarrow> 'h entry" where
  "key_stroke new_value e =
     (if \<not> en_validator_mounted e then e\<lparr>en_widget_text := new_value\<rparr>
      else case (validator_wrapper new_value e
                 :: (exn + bool) \<times> 'h entry \<times> ('h, (unit option, 'h entry) evarg) call list) of
             (Inr True, e', _) \<Rightarrow> e'\<lparr>en_widget_text := new_value\<rparr>
           | (_, e', _) \<Rightarrow> e')"

text \<open>
  Attempts to change the text: a \<open>text_set\<close> call with its arguments, or a key
  stroke. A sequence of attempts runs each on the entry the previous one left, whether
  it raised or not.
\<close>

datatype 'x attempt = TextSet string bool "'x option" bool | KeyStroke string

fun attempt_run :: "'x attempt \<Rightarrow> 'h entry \<Rightarrow> 'h entry" where
  "attempt_run (TextSet t notify notify_arg is_validator) e =
     fst (snd (text_set t notify notify_arg is_validator e))"
| "attempt_run (KeyStroke new_value) e = key_stroke new_value e"

fun attempts_run :: "'x attempt list \<Rightarrow> 'h entry \<Rightarrow> 'h entry" where
  "attempts_run [] e = e"
| "attempts_run (a # as) e = attempts_run as (attempt_run a e)"

section \<open>menu.py: the menu tree\<close>

text \<open>
  The toolkit's menu widgets live in a store, addressed by reference. A menu widget is
  the list of its entries; \<open>tearoff\<close> is off, so the first entry has index 0.
\<close>

datatype native_entry = Cascade nat string | CommandEntry string | SeparatorEntry

type_synonym native_store = "(nat \<times> native_entry list) list"

definition native_entries :: "native_store \<Rightarrow> nat \<Rightarrow> native_entry list" where
  "native_entries store r = (case map_of store r of Some es \<Rightarrow> es | None \<Rightarrow> [])"

fun native_store_set :: "nat \<Rightarrow> native_entry list \<Rightarrow> native_store \<Rightarrow> native_store" where
  "native_store_set r es [] = [(r, es)]"
| "native_store_set r es ((r', es') # rest) =
     (if r' = r then (r, es) # rest else (r', es') # native_store_set r es rest)"

text \<open>\<open>Menu.index(END)\<close>: the last index, or \<open>None\<close> for a menu without entries.\<close>

definition native_index_end :: "native_store \<Rightarrow> nat \<Rightarrow> int option" where
  "native_index_end store r =
     (if native_entries store r = [] then None
      else Some (int (length (native_entries store r)) - 1))"

text \<open>
  \<open>Menu.insert_cascade\<close>, \<open>insert_command\<close>, \<open>insert_separator\<close> at an index
  from 0 to the number of entries, which is all \<open>add_item\<close> lets through; and
  \<open>Menu.delete\<close> of the entry at an index in range.
\<close>

definition native_insert :: "nat \<Rightarrow> int \<Rightarrow> native_entry \<Rightarrow> native_store \<Rightarrow> native_store" where
  "native_insert r index entry store =
     native_store_set r
       (take (nat index) (native_entries store r) @ [entry] @ drop (nat index) (native_entries store r))
       store"

definition native_delete :: "nat \<Rightarrow> int \<Rightarrow> native_store \<Rightarrow> native_store" where
  "native_delete r index store =
     (if 0 \<le> index \<and> index < int (length (native_entries store r))
      then native_store_set r
             (take (nat index) (native_entries store r) @ drop (Suc (nat index)) (native_entries store r))
             store
      else store)"

text \<open>
  An item widget is a menu widget, or one of the two names \<open>command\<close> and
  \<open>separator\<close>. An info dict holds the item's parent id (\<open>None\<close> for the top
  menu), its widget and its index among its siblings (\<open>None\<close> for the top menu); its
  own id is the key it is stored under.
\<close>

datatype item_widget = MenuWidget nat | CommandName | SeparatorName

record info =
  INFO_K_PID :: "string option"
  INFO_K_ITEM_WIDGET :: item_widget
  INFO_K_ITEM_INDEX :: "int option"

text \<open>
  The state of a \<open>MenuTree\<close>: the separator, the ordered dict of infos, and the
  store of menu widgets with the next free reference.
\<close>

record menu_tree =
  mt_id_sep :: string
  mt_id_to_info :: "(string \<times> info) list"
  mt_store :: native_store
  mt_next_ref :: nat

definition INFO_K_ID_V_TOP :: string where
  "INFO_K_ID_V_TOP = ''/''"

text \<open>Assignment to a key of the ordered dict, and deletion of a key.\<close>

fun dict_set :: "string \<Rightarrow> info \<Rightarrow> (string \<times> info) list \<Rightarrow> (string \<times> info) list" where
  "dict_set k v [] = [(k, v)]"
| "dict_set k v ((k', v') # rest) =
     (if k' = k then (k, v) # rest else (k', v') # dict_set k v rest)"

definition dict_del :: "string \<Rightarrow> (string \<times> info) list \<Rightarrow> (string \<times> info) list" where
  "dict_del k d = filter (\<lambda>(k', v). k' \<noteq> k) d"

text \<open>\<open>MenuTree.__init__\<close> with the default separator and id functions.\<close>

definition MenuTree_init :: menu_tree where
  "MenuTree_init =
     \<lparr>mt_id_sep = ''/'',
      mt_id_to_info =
        [(INFO_K_ID_V_TOP,
          \<lparr>INFO_K_PID = None, INFO_K_ITEM_WIDGET = MenuWidget 0, INFO_K_ITEM_INDEX = None\<rparr>)],
      mt_store = [(0, [])],
      mt_next_ref = 1\<rparr>"

definition item_ids :: "menu_tree \<Rightarrow> string list" where
  "item_ids t = map fst (mt_id_to_info t)"

definition item_exists :: "menu_tree \<Rightarrow> string \<Rightarrow> bool" where
  "item_exists t iid = (map_of (mt_id_to_info t) iid \<noteq> None)"

definition item_index :: "menu_tree \<Rightarrow> string \<Rightarrow> exn + int option" where
  "item_index t iid =
     (case map_of (mt_id_to_info t) iid of
        None \<Rightarrow> Inl ValueError
      | Some info \<Rightarrow> Inr (INFO_K_ITEM_INDEX info))"

definition item_is_menu :: "menu_tree \<Rightarrow> string \<Rightarrow> exn + bool" where
  "item_is_menu t iid =
     (case map_of (mt_id_to_info t) iid of
        None \<Rightarrow> Inl ValueError
      | Some info \<Rightarrow>
          Inr (case INFO_K_ITEM_WIDGET info of MenuWidget r \<Rightarrow> True | _ \<Rightarrow> False))"

text \<open>
  \<open>item_child_indexes\<close>: the indexes of the items whose parent is the given menu,
  sorted. Every item with a parent has an index.
\<close>

definition item_child_indexes :: "menu_tree \<Rightarrow> string \<Rightarrow> exn + int list" where
  "item_child_indexes t iid =
     (case item_is_menu t iid of
        Inl e \<Rightarrow> Inl e
      | Inr False \<Rightarrow> Inl ValueError
      | Inr True \<Rightarrow>
          Inr (sort (List.map_filter
                 (\<lambda>(k, info). if INFO_K_PID info = Some iid then INFO_K_ITEM_INDEX info else None)
                 (mt_id_to_info t))))"

definition item_child_index_last :: "menu_tree \<Rightarrow> string \<Rightarrow> exn + int" where
  "item_child_index_last t iid =
     (case item_is_menu t iid of
        Inl e \<Rightarrow> Inl e
      | Inr False \<Rightarrow> Inl ValueError
      | Inr True \<Rightarrow>
          (case item_child_indexes t iid of
             Inl e \<Rightarrow> Inl e
           | Inr index_s \<Rightarrow> Inr (if index_s \<noteq> [] then last index_s else -1)))"

definition item_child_index_last_internal :: "menu_tree \<Rightarrow> string \<Rightarrow> exn + int" where
  "item_child_index_last_internal t iid =
     (case map_of (mt_id_to_info t) iid of
        None \<Rightarrow> Inl ValueError
      | Some info \<Rightarrow>
          (case INFO_K_ITEM_WIDGET info of
             MenuWidget r \<Rightarrow>
               (case native_index_end (mt_store t) r of
                  None \<Rightarrow> Inr (-1)
                | Some index_end \<Rightarrow> Inr index_end)
           | _ \<Rightarrow> Inl ValueError))"

text \<open>\<open>MenuTree.menu\<close>; the id \<open>None\<close> is no key of the dict.\<close>

definition menu :: "menu_tree \<Rightarrow> string option \<Rightarrow> exn + nat" where
  "menu t iid =
     (case iid of
        None \<Rightarrow> Inl ValueError
      | Some i \<Rightarrow>
          (case map_of (mt_id_to_info t) i of
             None \<Rightarrow> Inl ValueError
           | Some info \<Rightarrow>
               (case INFO_K_ITEM_WIDGET info of
                  MenuWidget r \<Rightarrow> Inr r
                | _ \<Rightarrow> Inl ValueError)))"

text \<open>\<open>_add_info_dict\<close>\<close>

definition add_info_dict ::
  "string \<Rightarrow> string \<Rightarrow> int \<Rightarrow> item_widget \<Rightarrow> menu_tree \<Rightarrow> exn + menu_tree" where
  "add_info_dict pid iid index widget t =
     (if item_exists t iid then Inl ValueError
      else case item_is_menu t pid of
        Inl e \<Rightarrow> Inl e
      | Inr False \<Rightarrow> Inl ValueError
      | Inr True \<Rightarrow>
          (case item_child_index_last t pid of
             Inl e \<Rightarrow> Inl e
           | Inr last_index \<Rightarrow>
               (case item_child_index_last_internal t pid of
                  Inl e \<Rightarrow> Inl e
                | Inr last_index_internal \<Rightarrow>
                    if last_index \<noteq> last_index_internal - 1 then Inl ValueError
                    else if \<not> (0 \<le> index \<and> index \<le> last_index + 1) then Inl ValueError
                    else
                      let shifted = map (\<lambda>(k, info).
                            if INFO_K_PID info = Some pid
                            then (case INFO_K_ITEM_INDEX info of
                                    Some index_x \<Rightarrow>
                                      if index_x \<ge> index
                                      then (k, info\<lparr>INFO_K_ITEM_INDEX := Some (index_x + 1)\<rparr>)
                                      else (k, info)
                                  | None \<Rightarrow> (k, info))
                            else (k, info)) (mt_id_to_info t)
                      in Inr (t\<lparr>mt_id_to_info :=
                                dict_set iid
                                  \<lparr>INFO_K_PID = Some pid, INFO_K_ITEM_WIDGET = widget,
                                   INFO_K_ITEM_INDEX = Some index\<rparr> shifted\<rparr>))))"

text \<open>\<open>_id_to_full_default\<close>\<close>

definition id_to_full_default :: "string \<Rightarrow> string \<Rightarrow> string \<Rightarrow> string" where
  "id_to_full_default iid pid id_sep =
     (if pid = INFO_K_ID_V_TOP \<and> id_sep = INFO_K_ID_V_TOP then pid @ iid
      else pid @ id_sep @ iid)"

text \<open>
  \<open>str.rpartition\<close>, by a search for the first occurrence on the reversed
  strings; it raises \<open>ValueError\<close> for an empty separator. And
  \<open>_id_to_label_default\<close>.
\<close>

fun partition_str :: "string \<Rightarrow> string \<Rightarrow> (string \<times> string) option" where
  "partition_str sp [] = (if sp = [] then Some ([], []) else None)"
| "partition_str sp (c # cs) =
     (if take (length sp) (c # cs) = sp then Some ([], drop (length sp) (c # cs))
      else case partition_str sp cs of
             None \<Rightarrow> None
           | Some (a, b) \<Rightarrow> Some (c # a, b))"

definition rpartition :: "string \<Rightarrow> string \<Rightarrow> exn + string \<times> string \<times> string" where
  "rpartition s sp =
     (if sp = [] then Inl ValueError
      else case partition_str (rev sp) (rev s) of
             None \<Rightarrow> Inr ([], [], s)
           | Some (a, b) \<Rightarrow> Inr (rev b, sp, rev a))"

definition id_to_label_default :: "string \<Rightarrow> string \<Rightarrow> exn + string" where
  "id_to_label_default iid id_sep =
     (case rpartition iid id_sep of
        Inl e \<Rightarrow> Inl e
      | Inr (prefix, _, label) \<Rightarrow> Inr label)"

text \<open>
  The three widget factories of \<open>add_menu\<close>, \<open>add_command\<close> and
  \<open>add_separator\<close>: each inserts its entry into the parent menu and returns the item
  widget; the one for menus creates the new menu widget first.
\<close>

datatype item_type = MenuItem | CommandItem | SeparatorItem

definition widget_factory ::
  "item_type \<Rightarrow> nat \<Rightarrow> int \<Rightarrow> string \<Rightarrow> menu_tree \<Rightarrow> item_widget \<times> menu_tree" where
  "widget_factory ty parent_menu index label t =
     (case ty of
        MenuItem \<Rightarrow>
          let r = mt_next_ref t;
              store1 = native_store_set r [] (mt_store t);
              store2 = native_insert parent_menu index (Cascade r label) store1
          in (MenuWidget r, t\<lparr>mt_store := store2, mt_next_ref := Suc r\<rparr>)
      | CommandItem \<Rightarrow>
          (CommandName, t\<lparr>mt_store := native_insert parent_menu index (CommandEntry label) (mt_store t)\<rparr>)
      | SeparatorItem \<Rightarrow>
          (SeparatorName, t\<lparr>mt_store := native_insert parent_menu index SeparatorEntry (mt_store t)\<rparr>))"

text \<open>\<open>add_item\<close>, for a tree made with the default id functions.\<close>

definition add_item ::
  "item_type \<Rightarrow> string \<Rightarrow> string \<Rightarrow> bool \<Rightarrow> string option \<Rightarrow> int option \<Rightarrow> string option \<Rightarrow>
   menu_tree \<Rightarrow> exn + menu_tree" where
  "add_item ty pid iid id_is_full id_sep index label t =
     (case item_is_menu t pid of
        Inl e \<Rightarrow> Inl e
      | Inr False \<Rightarrow> Inl ValueError
      | Inr True \<Rightarrow>
          let id_sep' = (case id_sep of Some sp \<Rightarrow> sp | None \<Rightarrow> mt_id_sep t);
              full_id = (if id_is_full then iid else id_to_full_default iid pid id_sep')
          in if item_exists t full_id then Inl ValueError
             else
               case (case label of
                       Some l \<Rightarrow> Inr l
                     | None \<Rightarrow> id_to_label_default full_id id_sep') of
                 Inl e \<Rightarrow> Inl e
               | Inr label' \<Rightarrow>
                  (case item_child_index_last t pid of
                    Inl e \<Rightarrow> Inl e
                  | Inr last_index \<Rightarrow>
                      (case item_child_index_last_internal t pid of
                         Inl e \<Rightarrow> Inl e
                       | Inr last_index_internal \<Rightarrow>
                           if last_index \<noteq> last_index_internal then Inl ValueError
                           else
                             let index' = (case index of Some i \<Rightarrow> i | None \<Rightarrow> last_index + 1)
                             in if \<not> (0 \<le> index' \<and> index' \<le> last_index + 1) then Inl ValueError
                                else case menu t (Some pid) of
                                       Inl e \<Rightarrow> Inl e
                                     | Inr parent_menu \<Rightarrow>
                                         (case widget_factory ty parent_menu index' label' t of
                                            (widget, t1) \<Rightarrow>
                                              add_info_dict pid full_id index' widget t1))))"

definition add_menu ::
  "string \<Rightarrow> string \<Rightarrow> bool \<Rightarrow> string option \<Rightarrow> int option \<Rightarrow> string option \<Rightarrow>
   menu_tree \<Rightarrow> exn + menu_tree" where
  "add_menu pid iid id_is_full id_sep index label t =
     add_item MenuItem pid iid id_is_full id_sep index label t"

definition add_command ::
  "string \<Rightarrow> string \<Rightarrow> bool \<Rightarrow> string option \<Rightarrow> int option \<Rightarrow> string option \<Rightarrow>
   menu_tree \<Rightarrow> exn + menu_tree" where
  "add_command pid iid id_is_full id_sep index label t =
     add_item CommandItem pid iid id_is_full id_sep index label t"

definition add_separator ::
  "string \<Rightarrow> string \<Rightarrow> bool \<Rightarrow> string option \<Rightarrow> int option \<Rightarrow>
   menu_tree \<Rightarrow> exn + menu_tree" where
  "add_separator pid iid id_is_full id_sep index t =
     add_item SeparatorItem pid iid id_is_full id_sep index None t"

text \<open>
  \<open>remove_item\<close>, with its loop over the ids the dict had when the loop began. The
  method calls itself for every child; the first argument bounds the depth of these
  calls, and at depth zero the interpreter's \<open>RecursionError\<close> is raised.
\<close>

fun remove_item :: "nat \<Rightarrow> string \<Rightarrow> menu_tree \<Rightarrow> exn + menu_tree"
  and remove_item_loop ::
    "nat \<Rightarrow> string \<Rightarrow> string option \<Rightarrow> int option \<Rightarrow> string list \<Rightarrow> menu_tree \<Rightarrow> exn + menu_tree"
where
  "remove_item 0 iid t = Inl RecursionError"
| "remove_item (Suc depth) iid t =
     (if iid = INFO_K_ID_V_TOP then Inl ValueError
      else case map_of (mt_id_to_info t) iid of
        None \<Rightarrow> Inl ValueError
      | Some info \<Rightarrow>
          let item_pid = INFO_K_PID info;
              item_index' = INFO_K_ITEM_INDEX info
          in case menu t item_pid of
               Inl e \<Rightarrow> Inl e
             | Inr parent_menu \<Rightarrow>
                 let t1 = t\<lparr>mt_store :=
                            (case item_index' of
                               Some i \<Rightarrow> native_delete parent_menu i (mt_store t)
                             | None \<Rightarrow> mt_store t)\<rparr>
                 in case remove_item_loop depth iid item_pid item_index' (item_ids t1) t1 of
                      Inl e \<Rightarrow> Inl e
                    | Inr t2 \<Rightarrow> Inr (t2\<lparr>mt_id_to_info := dict_del iid (mt_id_to_info t2)\<rparr>))"
| "remove_item_loop depth iid item_pid item_index' [] t = Inr t"
| "remove_item_loop depth iid item_pid item_index' (x_item_id # rest) t =
     (case map_of (mt_id_to_info t) x_item_id of
        None \<Rightarrow> remove_item_loop depth iid item_pid item_index' rest t
      | Some x_info \<Rightarrow>
          let x_pid = INFO_K_PID x_info in
          if x_pid = Some iid then
            (case remove_item depth x_item_id t of
               Inl e \<Rightarrow> Inl e
             | Inr t' \<Rightarrow> remove_item_loop depth iid item_pid item_index' rest t')
          else if x_pid = item_pid then
            (case (INFO_K_ITEM_INDEX x_info, item_index') of
               (Some x_index, Some i) \<Rightarrow>
                 if x_index > i
                 then remove_item_loop depth iid item_pid item_index' rest
                        (t\<lparr>mt_id_to_info :=
                             dict_set x_item_id (x_info\<lparr>INFO_K_ITEM_INDEX := Some (x_index - 1)\<rparr>)
                               (mt_id_to_info t)\<rparr>)
                 else remove_item_loop depth iid item_pid item_index' rest t
             | _ \<Rightarrow> remove_item_loop depth iid item_pid item_index' rest t)
          else remove_item_loop depth iid item_pid item_index' rest t)"

section \<open>registry_editor.py: the selection memo of the editor\<close>

text \<open>
  Of the \<open>RegistryEditor\<close> the model keeps the path navigator, the child keys
  listbox and the memo dict from key path to active child index.
\<close>

record 'h editor =
  ed_path_nav :: "'h navigator"
  ed_child_keys_listbox :: "(string, 'h) listbox"
  ed_indexcur_memo :: "string \<rightharpoonup> int"

text \<open>\<open>_child_keys_listbox_indexcur_remember\<close>\<close>

definition child_keys_listbox_indexcur_remember :: "'h editor \<Rightarrow> 'h editor" where
  "child_keys_listbox_indexcur_remember ed =
     (let key_path = path (ed_path_nav ed);
          indexcur' = indexcur (ed_child_keys_listbox ed)
      in if key_path \<noteq> ROOT \<and> indexcur' = 0 then ed
         else ed\<lparr>ed_indexcur_memo := (ed_indexcur_memo ed)(key_path \<mapsto> indexcur')\<rparr>)"

text \<open>\<open>_child_keys_listbox_indexcur_recover\<close>\<close>

definition child_keys_listbox_indexcur_recover ::
  "'h editor \<Rightarrow> exn option \<times> 'h editor \<times> ('h, (unit option, unit) evarg) call list" where
  "child_keys_listbox_indexcur_recover ed =
     (let key_path = path (ed_path_nav ed) in
      case ed_indexcur_memo ed key_path of
        None \<Rightarrow> (None, ed, [])
      | Some memo_index \<Rightarrow>
          let last_index = index_last (ed_child_keys_listbox ed) in
          if memo_index = indexcur (ed_child_keys_listbox ed) then (None, ed, [])
          else if memo_index > last_index
          then (None, ed\<lparr>ed_indexcur_memo := (ed_indexcur_memo ed)(key_path := None)\<rparr>, [])
          else case indexcur_set memo_index False True None (ed_child_keys_listbox ed) of
                 (e, lb', t) \<Rightarrow> (e, ed\<lparr>ed_child_keys_listbox := lb'\<rparr>, t))"

text \<open>
  \<open>_child_keys_listbox_on_nav_path_change\<close>, the handler of the navigator's
  \<open>PATH_CHANGE_DONE\<close>. What \<open>child_names()\<close> reads from the registry and
  \<open>str.lower\<close> are parameters; the warning dialog and the status bar are left out.
\<close>

definition child_keys_listbox_on_nav_path_change ::
  "(string \<Rightarrow> string) \<Rightarrow> string list option \<Rightarrow> 'h editor \<Rightarrow>
   exn option \<times> 'h editor \<times> ('h, (unit option, unit) evarg) call list" where
  "child_keys_listbox_on_nav_path_change lower child_names ed =
     (let key_path = path (ed_path_nav ed);
          child_key_name_s = (case child_names of None \<Rightarrow> [] | Some names \<Rightarrow> names);
          child_key_name_s1 = sort_key lower child_key_name_s
      in case (if key_path \<noteq> ROOT then py_insert 0 ''..'' child_key_name_s1
               else Inr child_key_name_s1) of
           Inl e \<Rightarrow> (Some e, ed, [])
         | Inr child_key_name_s2 \<Rightarrow>
             (case items_set child_key_name_s2 True False (ed_child_keys_listbox ed) of
                (Some e, lb', t) \<Rightarrow> (Some e, ed\<lparr>ed_child_keys_listbox := lb'\<rparr>, t)
              | (None, lb', t) \<Rightarrow>
                  (case child_keys_listbox_indexcur_recover (ed\<lparr>ed_child_keys_listbox := lb'\<rparr>) of
                     (e, ed', t') \<Rightarrow> (e, ed', t @ t'))))"

text \<open>Two calls in a row: the second runs on what the first returned, unless it raised.\<close>

definition and_then :: "exn + 'a \<Rightarrow> ('a \<Rightarrow> exn + 'b) \<Rightarrow> exn + 'b" where
  "and_then m f = (case m of Inl e \<Rightarrow> Inl e | Inr x \<Rightarrow> f x)"

section \<open>Example objects\<close>

text \<open>
  A registry in which only the hive \<open>HKEY_USERS\<close> can be opened, and a navigator at
  the root path with one handler for each of its two events.
\<close>

definition example_registry :: reg_open where
  "example_registry = (\<lambda>h p m. if h = HKEY_USERS \<and> p = None then Some 1 else None)"

definition example_navigator :: "nat navigator" where
  "example_navigator =
     \<lparr>nav_path = [],
      nav_event_handlers =
        [PATH_CHANGE_SOON \<mapsto> [\<lparr>handler = 1, need_arg = True\<rparr>],
         PATH_CHANGE_DONE \<mapsto> [\<lparr>handler = 2, need_arg = True\<rparr>]]\<rparr>"

text \<open>An eventor with a handler for the event \<open>E\<close> and a handler for every event.\<close>

definition example_eventor :: "nat event_handlers" where
  "example_eventor =
     [Some ''E'' \<mapsto> [\<lparr>handler = 1, need_arg = True\<rparr>],
      None \<mapsto> [\<lparr>handler = 2, need_arg = False\<rparr>]]"

text \<open>
  A listbox of three items with the first one active; the same listbox disabled, in the
  middle of a change, with no active item, and with the last item active.
\<close>

definition example_listbox :: "(string, nat) listbox" where
  "example_listbox =
     \<lparr>lb_items = [''a'', ''b'', ''c''],
      lb_indexcur = 0,
      lb_is_changing = False,
      lb_is_resetting = False,
      lb_enabled = True,
      lb_widget_size = 3,
      lb_event_handlers = Map.empty\<rparr>"



definition example_unselected :: "(string, nat) listbox" where
  "example_unselected = example_listbox\<lparr>lb_indexcur := -1\<rparr>"

definition example_last_active :: "(string, nat) listbox" where
  "example_last_active = example_listbox\<lparr>lb_indexcur := 2\<rparr>"

text \<open>An entry holding the text \<open>old\<close> whose validator rejects every value.\<close>

definition example_entry :: "nat entry" where
  "example_entry =
     \<lparr>en_text = ''old'',
      en_validator = (\<lambda>v. Inr False),
      en_is_changing = False,
      en_old_widget_state = ''normal'',
      en_widget_text = ''old'',
      en_widget_state = ''normal'',
      en_validator_mounted = True,
      en_event_handlers = Map.empty\<rparr>"

text \<open>
  Menu trees: with the menu \<open>/A\<close> and its command \<open>/A/B\<close>; after \<open>/A\<close> is
  removed; after the menu \<open>/C\<close> is added then.
\<close>

definition tree_AB :: menu_tree where
  "tree_AB =
     \<lparr>mt_id_sep = ''/'',
      mt_id_to_info =
        [(''/'', \<lparr>INFO_K_PID = None, INFO_K_ITEM_WIDGET = MenuWidget 0, INFO_K_ITEM_INDEX = None\<rparr>),
         (''/A'', \<lparr>INFO_K_PID = Some ''/'', INFO_K_ITEM_WIDGET = MenuWidget 1,
                  INFO_K_ITEM_INDEX = Some 0\<rparr>),
         (''/A/B'', \<lparr>INFO_K_PID = Some ''/A'', INFO_K_ITEM_WIDGET = CommandName,
                    INFO_K_ITEM_INDEX = Some 0\<rparr>)],
      mt_store = [(0, [Cascade 1 ''A'']), (1, [CommandEntry ''B''])],
      mt_next_ref = 2\<rparr>"

definition tree_removed :: menu_tree where
  "tree_removed =
     \<lparr>mt_id_sep = ''/'',
      mt_id_to_info =
        [(''/'', \<lparr>INFO_K_PID = None, INFO_K_ITEM_WIDGET = MenuWidget 0, INFO_K_ITEM_INDEX = None\<rparr>)],
      mt_store = [(0, []), (1, [])],
      mt_next_ref = 2\<rparr>"

definition tree_C :: menu_tree where
  "tree_C =
     \<lparr>mt_id_sep = ''/'',
      mt_id_to_info =
        [(''/'', \<lparr>INFO_K_PID = None, INFO_K_ITEM_WIDGET = MenuWidget 0, INFO_K_ITEM_INDEX = None\<rparr>),
         (''/C'', \<lparr>INFO_K_PID = Some ''/'', INFO_K_ITEM_WIDGET = MenuWidget 2,
                  INFO_K_ITEM_INDEX = Some 0\<rparr>)],
      mt_store = [(0, [Cascade 2 ''C'']), (1, []), (2, [])],
      mt_next_ref = 3\<rparr>"

text \<open>
  The same with two more items in the top menu after \<open>/A\<close>, the menu \<open>/D\<close> and
  the command \<open>/E\<close>.
\<close>

definition tree_ADEB :: menu_tree where
  "tree_ADEB =
     \<lparr>mt_id_sep = ''/'',
      mt_id_to_info =
        [(''/'', \<lparr>INFO_K_PID = None, INFO_K_ITEM_WIDGET = MenuWidget 0, INFO_K_ITEM_INDEX = None\<rparr>),
         (''/A'', \<lparr>INFO_K_PID = Some ''/'', INFO_K_ITEM_WIDGET = MenuWidget 1,
                  INFO_K_ITEM_INDEX = Some 0\<rparr>),
         (''/D'', \<lparr>INFO_K_PID = Some ''/'', INFO_K_ITEM_WIDGET = MenuWidget 2,
                  INFO_K_ITEM_INDEX = Some 1\<rparr>),
         (''/E'', \<lparr>INFO_K_PID = Some ''/'', INFO_K_ITEM_WIDGET = CommandName,
                  INFO_K_ITEM_INDEX = Some 2\<rparr>),
         (''/A/B'', \<lparr>INFO_K_PID = Some ''/A'', INFO_K_ITEM_WIDGET = CommandName,
                    INFO_K_ITEM_INDEX = Some 0\<rparr>)],
      mt_store = [(0, [Cascade 1 ''A'', Cascade 2 ''D'', CommandEntry ''E'']),
                  (1, [CommandEntry ''B'']), (2, [])],
      mt_next_ref = 3\<rparr>"

definition tree_DE :: menu_tree where
  "tree_DE =
     \<lparr>mt_id_sep = ''/'',
      mt_id_to_info =
        [(''/'', \<lparr>INFO_K_PID = None, INFO_K_ITEM_WIDGET = MenuWidget 0, INFO_K_ITEM_INDEX = None\<rparr>),
         (''/D'', \<lparr>INFO_K_PID = Some ''/'', INFO_K_ITEM_WIDGET = MenuWidget 2,
                  INFO_K_ITEM_INDEX = Some 0\<rparr>),
         (''/E'', \<lparr>INFO_K_PID = Some ''/'', INFO_K_ITEM_WIDGET = CommandName,
                  INFO_K_ITEM_INDEX = Some 1\<rparr>)],
      mt_store = [(0, [Cascade 2 ''D'', CommandEntry ''E'']), (1, []), (2, [])],
      mt_next_ref = 3\<rparr>"

definition tree_DEC :: menu_tree where
  "tree_DEC =
     \<lparr>mt_id_sep = ''/'',
      mt_id_to_info =
        [(''/'', \<lparr>INFO_K_PID = None, INFO_K_ITEM_WIDGET = MenuWidget 0, INFO_K_ITEM_INDEX = None\<rparr>),
         (''/D'', \<lparr>INFO_K_PID = Some ''/'', INFO_K_ITEM_WIDGET = MenuWidget 2,
                  INFO_K_ITEM_INDEX = Some 0\<rparr>),
         (''/E'', \<lparr>INFO_K_PID = Some ''/'', INFO_K_ITEM_WIDGET = CommandName,
                  INFO_K_ITEM_INDEX = Some 1\<rparr>),
         (''/C'', \<lparr>INFO_K_PID = Some ''/'', INFO_K_ITEM_WIDGET = MenuWidget 3,
                  INFO_K_ITEM_INDEX = Some 2\<rparr>)],
      mt_store = [(0, [Cascade 2 ''D'', CommandEntry ''E'', Cascade 3 ''C'']), (1, []), (2, []),
                  (3, [])],
      mt_next_ref = 4\<rparr>"

text \<open>
  An editor at the key \<open>HKEY_USERS\<close> whose child list shows the parent entry and two
  keys, the last one active; and the same editor with the parent entry active.
\<close>

definition example_editor :: "nat editor" where
  "example_editor =
     \<lparr>ed_path_nav = \<lparr>nav_path = ''HKEY_USERS'', nav_event_handlers = Map.empty\<rparr>,
      ed_child_keys_listbox =
        \<lparr>lb_items = [''..'', ''a'', ''b''],
         lb_indexcur = 2,
         lb_is_changing = False,
         lb_is_resetting = False,
         lb_enabled = True,
         lb_widget_size = 3,
         lb_event_handlers = Map.empty\<rparr>,
      ed_indexcur_memo = Map.empty\<rparr>"

definition example_editor_up :: "nat editor" where
  "example_editor_up =
     example_editor\<lparr>ed_child_keys_listbox := (ed_child_keys_listbox example_editor)\<lparr>lb_indexcur := 0\<rparr>\<rparr>"

text \<open>
  An editor back at \<open>HKEY_USERS\<close> after a visit elsewhere, with memo entries for
  two paths.
\<close>

definition example_editor_back :: "nat editor" where
  "example_editor_back =
     \<lparr>ed_path_nav = \<lparr>nav_path = ''HKEY_USERS'', nav_event_handlers = Map.empty\<rparr>,
      ed_child_keys_listbox =
        \<lparr>lb_items = [''..''],
         lb_indexcur = -1,
         lb_is_changing = False,
         lb_is_resetting = False,
         lb_enabled = True,
         lb_widget_size = 1,
         lb_event_handlers = Map.empty\<rparr>,
      ed_indexcur_memo = [''HKEY_USERS'' \<mapsto> 2, ''HKEY_CLASSES_ROOT'' \<mapsto> 1]\<rparr>"

section \<open>Results about the event notification primitive\<close>

lemma handler_notify_registered:
  "handler_notify eh self event arg notifier need_info =
     map (\<lambda>w. wrapper_call w (passed_arg self event arg notifier need_info)) (registered eh event)
   @ map (\<lambda>w. wrapper_call w (passed_arg self event arg notifier need_info)) (registered eh None)"
  by (simp add: handler_notify_def registered_def passed_arg_def Let_def split: option.splits)

lemma handler_add_registered:
  assumes "handler_add eh k h na = Inr eh'"
  shows "registered eh' k = registered eh k @ [\<lparr>handler = h, need_arg = na\<rparr>]"
    and "k' \<noteq> k \<Longrightarrow> registered eh' k' = registered eh k'"
  using assms
  by (auto simp: handler_add_def registered_def Let_def split: option.splits if_splits)

text \<open>
  C2. \<open>handler_notify\<close> calls the handlers registered for the event in their
  registration order, then the handlers registered under \<open>None\<close> in theirs, each
  through its wrapper with the same argument; registration order is the order of the
  accepted \<open>handler_add\<close> calls, each of which appends to the list of its own key and
  leaves every other key alone; with no handler under either key nothing is invoked.
\<close>

theorem handler_notify_order:
  "handler_notify eh self E arg notifier need_info =
     map (\<lambda>w. wrapper_call w (passed_arg self E arg notifier need_info)) (registered eh E)
   @ map (\<lambda>w. wrapper_call w (passed_arg self E arg notifier need_info)) (registered eh None)
   \<and> (\<forall>k h na eh'. handler_add eh k h na = Inr eh' \<longrightarrow>
        registered eh' k = registered eh k @ [\<lparr>handler = h, need_arg = na\<rparr>]
        \<and> (\<forall>k'. k' \<noteq> k \<longrightarrow> registered eh' k' = registered eh k'))
   \<and> (registered eh E = [] \<and> registered eh None = [] \<longrightarrow>
        handler_notify eh self E arg notifier need_info = [])"
  using handler_notify_registered [of eh self E arg notifier need_info]
        handler_add_registered [of eh]
  by auto

theorem handler_notify_order_witness:
  "handler_notify example_eventor () (Some ''E'') (5::nat) None False
     = [Call 1 (Some (Plain 5)), Call 2 None]
   \<and> handler_add example_eventor (Some ''E'') 3 False
     = Inr (example_eventor(Some ''E'' \<mapsto>
         [\<lparr>handler = 1, need_arg = True\<rparr>, \<lparr>handler = 3, need_arg = False\<rparr>]))
   \<and> registered (Eventor_init :: nat event_handlers) (Some ''E'') = []
   \<and> registered (Eventor_init :: nat event_handlers) None = []
   \<and> handler_notify (Eventor_init :: nat event_handlers) () (Some ''E'') (5::nat) None False = []"
proof -
  have a: "handler_add example_eventor (Some ''E'') 3 False
     = Inr (example_eventor(Some ''E'' \<mapsto>
         [\<lparr>handler = 1, need_arg = True\<rparr>, \<lparr>handler = 3, need_arg = False\<rparr>]))"
    by (simp add: handler_add_def example_eventor_def wrapper_eq_def)
  have r: "registered (Eventor_init :: nat event_handlers) (Some ''E'') = []
           \<and> registered (Eventor_init :: nat event_handlers) None = []"
    by (simp add: registered_def Eventor_init_def)
  show ?thesis
    using a r
      handler_notify_order [of example_eventor "()" "Some ''E''" "5::nat" None False]
      handler_notify_order [of "Eventor_init :: nat event_handlers" "()" "Some ''E''" "5::nat" None False]
    by (simp add: registered_def example_eventor_def wrapper_call_def passed_arg_def)
qed

section \<open>Results about key objects\<close>

text \<open>
  C9. A key object of class \<open>RegKey\<close> that holds a handle is open; its first
  \<open>close\<close> returns normally, gives the handle to \<open>RegCloseKey\<close> and leaves the
  object closed; a second \<open>close\<close> on the object raises \<open>ValueError\<close> and
  changes nothing.
\<close>

theorem close_twice_raises:
  assumes "rk_class k = RegKey" and "rk_handle k = Some h"
  shows "\<not> closed k
       \<and> close k = (None, k\<lparr>rk_handle := None\<rparr>, [h])
       \<and> closed (k\<lparr>rk_handle := None\<rparr>)
       \<and> close (k\<lparr>rk_handle := None\<rparr>) = (Some ValueError, k\<lparr>rk_handle := None\<rparr>, [])"
  using assms by (simp add: close_def closed_def)

theorem close_twice_raises_witness:
  "rk_class (RegKey_init 7 ''HKEY_USERS'') = RegKey
   \<and> rk_handle (RegKey_init 7 ''HKEY_USERS'') = Some 7
   \<and> \<not> closed (RegKey_init 7 ''HKEY_USERS'')
   \<and> fst (close (RegKey_init 7 ''HKEY_USERS'')) = None
   \<and> fst (close (fst (snd (close (RegKey_init 7 ''HKEY_USERS''))))) = Some ValueError"
proof -
  have c: "rk_class (RegKey_init 7 ''HKEY_USERS'') = RegKey"
    by (simp add: RegKey_init_def)
  have h: "rk_handle (RegKey_init 7 ''HKEY_USERS'') = Some 7"
    by (simp add: RegKey_init_def)
  show ?thesis
    using c h close_twice_raises [OF c h] by simp
qed

lemma close_root: "close RootRegKey_init = (None, RootRegKey_init, [])"
  by (simp add: close_def RootRegKey_init_def)

lemma close_times_root: "close_times n RootRegKey_init = (None, RootRegKey_init)"
  by (induction n) (simp_all add: close_root)

text \<open>
  C10. For the root path \<open>regkey_get\<close> returns the root key object, whatever the
  registry and the mask; any number of \<open>close\<close> calls on it returns normally and
  leaves it as it was, and \<open>closed\<close> is false before and after them.
\<close>

theorem root_key_close_noop:
  "regkey_get RegOpenKeyEx ROOT perm = Some RootRegKey_init
   \<and> close_times n RootRegKey_init = (None, RootRegKey_init)
   \<and> \<not> closed RootRegKey_init
   \<and> \<not> closed (snd (close_times n RootRegKey_init))"
  by (simp add: close_times_root) (simp add: regkey_get_def closed_def RootRegKey_init_def)

section \<open>Results about the path navigator\<close>

text \<open>
  C1. With \<open>check\<close> set and a path that \<open>regkey_exists\<close> rejects,
  \<open>go_to_path\<close> raises \<open>ValueError\<close>, leaves the navigator as it was and invokes
  no handler. In every other case it returns the path, the active path is the given one
  afterwards, and the handlers invoked are: each handler listening on
  \<open>PATH_CHANGE_SOON\<close> (then each listening on every event) once, given the
  navigator with the old path; after them each handler listening on
  \<open>PATH_CHANGE_DONE\<close> (then each listening on every event) once, given the
  navigator with the new path.
\<close>

theorem go_to_path_transition:
  "(check \<and> \<not> regkey_exists RegOpenKeyEx P \<longrightarrow>
      go_to_path RegOpenKeyEx P check nav = (Inl ValueError, nav, []))
   \<and> (\<not> (check \<and> \<not> regkey_exists RegOpenKeyEx P) \<longrightarrow>
      go_to_path RegOpenKeyEx P check nav =
          (Inr P, nav\<lparr>nav_path := P\<rparr>,
           map (\<lambda>w. wrapper_call w (Plain nav))
             (registered (nav_event_handlers nav) PATH_CHANGE_SOON
              @ registered (nav_event_handlers nav) None)
           @ map (\<lambda>w. wrapper_call w (Plain (nav\<lparr>nav_path := P\<rparr>)))
             (registered (nav_event_handlers nav) PATH_CHANGE_DONE
              @ registered (nav_event_handlers nav) None))
        \<and> path (nav\<lparr>nav_path := P\<rparr>) = P)"
  by (simp add: go_to_path_def Let_def handler_notify_registered passed_arg_def path_def)

lemma example_registry_exists:
  "regkey_exists example_registry ''HKEY_USERS''"
  "\<not> regkey_exists example_registry ''HKEY_NONE''"
  by (simp_all add: regkey_exists_def regkey_get_def regkey_handle_get_def partition_sep_def
      sep_def hive_name_to_int_def example_registry_def ROOT_def close_def closed_def
      RegKey_init_def)

theorem go_to_path_transition_witness:
  "regkey_exists example_registry ''HKEY_USERS''
   \<and> \<not> regkey_exists example_registry ''HKEY_NONE''
   \<and> go_to_path example_registry ''HKEY_NONE'' True example_navigator
       = (Inl ValueError, example_navigator, [])
   \<and> go_to_path example_registry ''HKEY_USERS'' True example_navigator
       = (Inr ''HKEY_USERS'', example_navigator\<lparr>nav_path := ''HKEY_USERS''\<rparr>,
          [Call 1 (Some (Plain example_navigator)),
           Call 2 (Some (Plain (example_navigator\<lparr>nav_path := ''HKEY_USERS''\<rparr>)))])"
proof -
  have n: "nav_event_handlers example_navigator =
        [PATH_CHANGE_SOON \<mapsto> [\<lparr>handler = 1, need_arg = True\<rparr>],
         PATH_CHANGE_DONE \<mapsto> [\<lparr>handler = 2, need_arg = True\<rparr>]]"
    by (simp add: example_navigator_def)
  have r: "registered (nav_event_handlers example_navigator) PATH_CHANGE_SOON
             = [\<lparr>handler = 1, need_arg = True\<rparr>]"
      "registered (nav_event_handlers example_navigator) PATH_CHANGE_DONE
             = [\<lparr>handler = 2, need_arg = True\<rparr>]"
      "registered (nav_event_handlers example_navigator) None = []"
    by (simp_all add: n registered_def PATH_CHANGE_SOON_def PATH_CHANGE_DONE_def)
  show ?thesis
    using example_registry_exists
      go_to_path_transition [of True example_registry "''HKEY_NONE''" example_navigator]
      go_to_path_transition [of True example_registry "''HKEY_USERS''" example_navigator]
    by (simp add: r wrapper_call_def)
qed

section \<open>Results about the selectable list\<close>

lemma indexcur_range: "indexcur lb = -1 \<or> (0 \<le> indexcur lb \<and> indexcur lb < size_items lb)"
  by (simp add: indexcur_def indexcurs_def index_is_valid_def)

lemma indexcur_eq: "indexcur lb = (if index_is_valid lb (lb_indexcur lb) then lb_indexcur lb else -1)"
  by (simp add: indexcur_def indexcurs_def)

lemma indexcur_in_step: "in_step lb \<Longrightarrow> indexcur lb = lb_indexcur lb"
  by (auto simp: indexcur_eq in_step_def index_is_valid_or_void_def)

lemma py_insert_valid:
  "0 \<le> i \<Longrightarrow> i \<le> int (length xs) \<Longrightarrow> i \<le> PY_SSIZE_T_MAX \<Longrightarrow>
   py_insert i x xs = Inr (take (nat i) xs @ x # drop (nat i) xs)"
  by (simp add: py_insert_def Let_def PY_SSIZE_T_MAX_def)

lemma py_insert_in_range:
  assumes "- PY_SSIZE_T_MAX - 1 \<le> i" and "i \<le> PY_SSIZE_T_MAX"
  shows "\<exists>ys. py_insert i x xs = Inr ys \<and> length ys = Suc (length xs)"
  using assms by (simp add: py_insert_def Let_def)

lemma py_del_valid:
  "0 \<le> i \<Longrightarrow> i < int (length xs) \<Longrightarrow> py_del i xs = Inr (take (nat i) xs @ drop (Suc (nat i)) xs)"
  by (simp add: py_del_def Let_def)

lemma indexcur_set_ok:
  assumes "lb_enabled lb" "\<not> lb_is_changing lb" "index_is_valid_or_void lb i"
    and "index_is_valid lb (lb_indexcur lb) \<longrightarrow> widget_has_row lb (lb_indexcur lb)"
    and "i \<noteq> -1 \<longrightarrow> widget_has_row lb i"
  shows "\<exists>t :: ('h, ('x option, unit) evarg) call list. indexcur_set i f n na lb =
           (None, lb\<lparr>lb_indexcur := i, lb_is_resetting := False, lb_is_changing := False\<rparr>, t)"
  using assms
  by (auto simp: indexcur_set_def is_enabled_def Let_def index_is_valid_def size_items_def
      widget_has_row_def index_is_valid_or_void_def)

lemma widget_update_ok:
  assumes "lb_enabled lb" "keep \<longrightarrow> index_is_valid_or_void lb (lb_indexcur lb)"
  shows "listbox_widget_update keep lb =
     (None, lb\<lparr>lb_widget_size := length (lb_items lb),
               lb_indexcur := (if keep then lb_indexcur lb else -1)\<rparr>)"
  using assms
  by (auto simp: listbox_widget_update_def Let_def widget_has_row_def index_is_valid_or_void_def
      index_is_valid_def size_items_def)

lemma item_insert_ok:
  assumes en: "lb_enabled lb" and nc: "\<not> lb_is_changing lb" and st: "in_step lb"
    and py: "py_insert (case idx of None \<Rightarrow> indexcur lb | Some i \<Rightarrow> i) item (lb_items lb) = Inr ys"
    and len: "length ys = Suc (length (lb_items lb))"
    and nl: "\<not> (indexcur lb \<noteq> -1 \<and> indexcur lb = index_last lb
               \<and> (case idx of None \<Rightarrow> indexcur lb | Some i \<Rightarrow> i) \<le> indexcur lb)"
  shows "\<exists>t :: ('h, ('x option, unit) evarg) call list. item_insert item idx n k lb =
     (None,
      lb\<lparr>lb_items := ys,
          lb_indexcur :=
            (if k then (if indexcur lb \<noteq> -1
                           \<and> (case idx of None \<Rightarrow> indexcur lb | Some i \<Rightarrow> i) \<le> indexcur lb
                        then indexcur lb + 1 else indexcur lb)
             else -1),
          lb_is_resetting := False, lb_is_changing := False,
          lb_widget_size := length ys\<rparr>, t)"
proof -
  let ?i = "case idx of None \<Rightarrow> indexcur lb | Some i \<Rightarrow> i"
  let ?s = "indexcur lb"
  let ?a = "if ?s \<noteq> -1 then (if ?s \<ge> ?i then ?s + 1 else ?s) else ?s"
  let ?lb1 = "lb\<lparr>lb_items := ys\<rparr>"
  have s: "?s = lb_indexcur lb" by (rule indexcur_in_step [OF st])
  have rng: "?s = -1 \<or> (0 \<le> ?s \<and> ?s < size_items lb)" by (rule indexcur_range)
  have rows: "lb_widget_size lb = length (lb_items lb)" using st by (simp add: in_step_def)
  have v: "index_is_valid_or_void ?lb1 ?a"
    using rng len by (auto simp: index_is_valid_or_void_def index_is_valid_def size_items_def)
  have o: "index_is_valid ?lb1 (lb_indexcur ?lb1) \<longrightarrow> widget_has_row ?lb1 (lb_indexcur ?lb1)"
    using rng s rows
    by (auto simp: index_is_valid_def widget_has_row_def size_items_def)
  have w: "?a \<noteq> -1 \<longrightarrow> widget_has_row ?lb1 ?a"
    using rng nl rows
    by (auto simp: widget_has_row_def size_items_def index_last_def)
  from indexcur_set_ok [of ?lb1 ?a False False "None :: 'x option", OF _ _ v o w] en nc
  obtain t2 :: "('h, ('x option, unit) evarg) call list" where
    r2: "indexcur_set ?a False False None ?lb1 =
           (None, ?lb1\<lparr>lb_indexcur := ?a, lb_is_resetting := False, lb_is_changing := False\<rparr>, t2)"
    by auto
  let ?lb2 = "?lb1\<lparr>lb_indexcur := ?a, lb_is_resetting := False, lb_is_changing := False\<rparr>"
  have v2: "k \<longrightarrow> index_is_valid_or_void ?lb2 (lb_indexcur ?lb2)"
    using v by (simp add: index_is_valid_or_void_def index_is_valid_def size_items_def)
  have r3: "listbox_widget_update k ?lb2 =
     (None, ?lb2\<lparr>lb_widget_size := length (lb_items ?lb2),
               lb_indexcur := (if k then lb_indexcur ?lb2 else -1)\<rparr>)"
    by (rule widget_update_ok) (use en v2 in simp_all)
  show ?thesis
    using py r2 r3
    by (simp add: item_insert_def Let_def cong: if_cong)
qed

lemma item_remove_ok:
  assumes en: "lb_enabled lb" and nc: "\<not> lb_is_changing lb" and st: "in_step lb"
    and vj: "index_is_valid lb j"
  shows "\<exists>t :: ('h, ('x option, unit) evarg) call list. item_remove j n k lb =
     (None,
      lb\<lparr>lb_items := take (nat j) (lb_items lb) @ drop (Suc (nat j)) (lb_items lb),
          lb_indexcur :=
            (if k then (if indexcur lb \<noteq> -1 \<and> indexcur lb > index_last lb - 1
                        then index_last lb - 1 else indexcur lb)
             else -1),
          lb_is_resetting := False, lb_is_changing := False,
          lb_widget_size := length (lb_items lb) - 1\<rparr>, t)"
proof -
  let ?s = "indexcur lb"
  let ?ys = "take (nat j) (lb_items lb) @ drop (Suc (nat j)) (lb_items lb)"
  let ?lb1 = "lb\<lparr>lb_items := ?ys\<rparr>"
  let ?a = "if ?s \<noteq> -1 then (if ?s > index_last ?lb1 then index_last ?lb1 else ?s) else ?s"
  have d: "py_del j (lb_items lb) = Inr ?ys"
    using vj by (simp add: py_del_valid index_is_valid_def size_items_def)
  have len: "int (length ?ys) = int (length (lb_items lb)) - 1"
    using vj by (auto simp: index_is_valid_def size_items_def)
  have il: "index_last ?lb1 = index_last lb - 1"
    using len by (simp add: index_last_def size_items_def)
  have s: "?s = lb_indexcur lb" by (rule indexcur_in_step [OF st])
  have rng: "?s = -1 \<or> (0 \<le> ?s \<and> ?s < size_items lb)" by (rule indexcur_range)
  have rows: "lb_widget_size lb = length (lb_items lb)" using st by (simp add: in_step_def)
  have v: "index_is_valid_or_void ?lb1 ?a"
    using rng len vj
    by (auto simp: index_is_valid_or_void_def index_is_valid_def size_items_def index_last_def)
  have o: "index_is_valid ?lb1 (lb_indexcur ?lb1) \<longrightarrow> widget_has_row ?lb1 (lb_indexcur ?lb1)"
    using rng s rows len
    by (auto simp: index_is_valid_def widget_has_row_def size_items_def)
  have w: "?a \<noteq> -1 \<longrightarrow> widget_has_row ?lb1 ?a"
    using rng rows len vj
    by (auto simp: widget_has_row_def size_items_def index_last_def index_is_valid_def)
  from indexcur_set_ok [of ?lb1 ?a False False "None :: 'x option", OF _ _ v o w] en nc
  obtain t2 :: "('h, ('x option, unit) evarg) call list" where
    r2: "indexcur_set ?a False False None ?lb1 =
           (None, ?lb1\<lparr>lb_indexcur := ?a, lb_is_resetting := False, lb_is_changing := False\<rparr>, t2)"
    by auto
  let ?lb2 = "?lb1\<lparr>lb_indexcur := ?a, lb_is_resetting := False, lb_is_changing := False\<rparr>"
  have v2: "k \<longrightarrow> index_is_valid_or_void ?lb2 (lb_indexcur ?lb2)"
    using v by (simp add: index_is_valid_or_void_def index_is_valid_def size_items_def)
  have r3: "listbox_widget_update k ?lb2 =
     (None, ?lb2\<lparr>lb_widget_size := length (lb_items ?lb2),
               lb_indexcur := (if k then lb_indexcur ?lb2 else -1)\<rparr>)"
    by (rule widget_update_ok) (use en v2 in simp_all)
  have l2: "length ?ys = length (lb_items lb) - 1"
    using len by linarith
  show ?thesis
    using vj d r2 r3 il l2
    by (simp add: item_remove_def Let_def cong: if_cong)
qed

lemmas listbox_defs =
  item_insert_def item_remove_def indexcur_set_def items_set_def listbox_widget_update_def
  widget_has_row_def indexcur_eq index_is_valid_def index_is_valid_or_void_def index_last_def
  size_items_def is_enabled_def py_insert_def py_del_def PY_SSIZE_T_MAX_def lb_raised_def
  lb_after_def in_step_def Let_def

lemma example_listbox_facts:
  "lb_enabled example_listbox" "\<not> lb_is_changing example_listbox" "in_step example_listbox"
  "indexcur example_listbox = 0" "index_last example_listbox = 2"
  "size_items example_listbox = 3" "lb_items example_listbox = [''a'', ''b'', ''c'']"
  by (simp_all add: listbox_defs example_listbox_def)




text \<open>
  C4 (amended). Take an enabled listbox in step, whose changing flag is off, and an
  insertion index (the one given, or the active index when none is given) that fits a
  list index of the interpreter and is not at or before an active last item. Then
  \<open>item_insert\<close> returns normally and leaves the listbox in step. With no index
  given and an active item, the item is inserted at the active index; with no index given
  and an empty list, the item becomes the only item; with an index between 0 and the
  number of items, the item is inserted at that index. With \<open>keep_active\<close> set, the
  active index afterwards is the old one plus one when there was an active item and the
  insertion index is at or before it, and the old one otherwise (so no active item stays
  no active item); with \<open>keep_active\<close> unset there is no active item afterwards.
\<close>

theorem item_insert_selection:
  assumes en: "lb_enabled lb" and nc: "\<not> lb_is_changing lb" and st: "in_step lb"
    and lo: "- PY_SSIZE_T_MAX - 1 \<le> (case idx of None \<Rightarrow> indexcur lb | Some i \<Rightarrow> i)"
    and hi: "(case idx of None \<Rightarrow> indexcur lb | Some i \<Rightarrow> i) \<le> PY_SSIZE_T_MAX"
    and nl: "\<not> (indexcur lb \<noteq> -1 \<and> indexcur lb = index_last lb
               \<and> (case idx of None \<Rightarrow> indexcur lb | Some i \<Rightarrow> i) \<le> indexcur lb)"
  shows "\<exists>lb' (t :: ('h, ('x option, unit) evarg) call list).
       item_insert item idx notify keep lb = (None, lb', t)
     \<and> (idx = None \<and> indexcur lb \<noteq> -1 \<longrightarrow>
          lb_items lb' = take (nat (indexcur lb)) (lb_items lb) @ item # drop (nat (indexcur lb)) (lb_items lb))
     \<and> (idx = None \<and> lb_items lb = [] \<longrightarrow> lb_items lb' = [item])
     \<and> (\<forall>i. idx = Some i \<and> 0 \<le> i \<and> i \<le> size_items lb \<longrightarrow>
          lb_items lb' = take (nat i) (lb_items lb) @ item # drop (nat i) (lb_items lb))
     \<and> indexcur lb' =
         (if keep
          then (if indexcur lb \<noteq> -1 \<and> (case idx of None \<Rightarrow> indexcur lb | Some i \<Rightarrow> i) \<le> indexcur lb
                then indexcur lb + 1 else indexcur lb)
          else -1)
     \<and> in_step lb'"
proof -
  let ?i = "case idx of None \<Rightarrow> indexcur lb | Some i \<Rightarrow> i"
  let ?s = "indexcur lb"
  let ?a = "if keep then (if ?s \<noteq> -1 \<and> ?i \<le> ?s then ?s + 1 else ?s) else -1"
  from py_insert_in_range [OF lo hi, of item "lb_items lb"]
  obtain ys where py: "py_insert ?i item (lb_items lb) = Inr ys"
    and len: "length ys = Suc (length (lb_items lb))"
    by blast
  let ?L = "lb\<lparr>lb_items := ys, lb_indexcur := ?a, lb_is_resetting := False,
               lb_is_changing := False, lb_widget_size := length ys\<rparr>"
  from item_insert_ok [OF en nc st py len nl, of notify keep]
  obtain t :: "('h, ('x option, unit) evarg) call list"
    where r: "item_insert item idx notify keep lb = (None, ?L, t)"
    by blast
  have rng: "?s = -1 \<or> (0 \<le> ?s \<and> ?s < size_items lb)"
    by (rule indexcur_range)
  have c1: "idx = None \<and> ?s \<noteq> -1 \<longrightarrow>
          lb_items ?L = take (nat ?s) (lb_items lb) @ item # drop (nat ?s) (lb_items lb)"
    using rng py by (auto simp: py_insert_def Let_def size_items_def split: if_splits)
  have c2: "idx = None \<and> lb_items lb = [] \<longrightarrow> lb_items ?L = [item]"
    using py by (auto simp: py_insert_def Let_def split: if_splits)
  have c3: "\<forall>i. idx = Some i \<and> 0 \<le> i \<and> i \<le> size_items lb \<longrightarrow>
          lb_items ?L = take (nat i) (lb_items lb) @ item # drop (nat i) (lb_items lb)"
    using py by (auto simp: py_insert_def Let_def size_items_def split: if_splits)
  have v: "index_is_valid_or_void ?L ?a"
    using rng len by (auto simp: index_is_valid_or_void_def index_is_valid_def size_items_def)
  have sel: "indexcur ?L = ?a"
    using v by (auto simp: indexcur_eq index_is_valid_or_void_def)
  have stp: "in_step ?L"
    using v by (simp add: in_step_def index_is_valid_or_void_def index_is_valid_def size_items_def)
  show ?thesis
    apply (rule exI [of _ ?L])
    apply (rule exI [of _ t])
    apply (intro conjI)
         apply (rule r)
        apply (rule c1)
       apply (rule c2)
      apply (rule c3)
     apply (rule sel)
    apply (rule stp)
    done
qed

theorem item_insert_selection_witness:
  "lb_enabled example_listbox \<and> \<not> lb_is_changing example_listbox \<and> in_step example_listbox
   \<and> indexcur example_listbox = 0 \<and> index_last example_listbox = 2
   \<and> (\<exists>lb' (t :: (nat, (unit option, unit) evarg) call list).
         item_insert ''x'' None False True example_listbox = (None, lb', t)
       \<and> lb_items lb' = [''x'', ''a'', ''b'', ''c'']
       \<and> indexcur lb' = 1
       \<and> in_step lb')"
proof -
  note f = example_listbox_facts
  have lo: "- PY_SSIZE_T_MAX - 1 \<le> (case None :: int option of None \<Rightarrow> indexcur example_listbox | Some i \<Rightarrow> i)"
    by (simp add: f PY_SSIZE_T_MAX_def)
  have hi: "(case None :: int option of None \<Rightarrow> indexcur example_listbox | Some i \<Rightarrow> i) \<le> PY_SSIZE_T_MAX"
    by (simp add: f PY_SSIZE_T_MAX_def)
  have nl: "\<not> (indexcur example_listbox \<noteq> -1 \<and> indexcur example_listbox = index_last example_listbox
               \<and> (case None :: int option of None \<Rightarrow> indexcur example_listbox | Some i \<Rightarrow> i)
                    \<le> indexcur example_listbox)"
    by (simp add: f)
  show ?thesis
    using f(1-5)
      item_insert_selection [OF f(1) f(2) f(3) lo hi nl, of "''x''" False True, where ?'x = unit]
    by (simp add: f)
qed

text \<open>
  C4 fails as stated. With no active item and no index given, the item goes before the
  last item of a list that is not empty, not to its end. With \<open>keep_active\<close> unset,
  an insertion at or before the active item leaves no active item instead of shifting the
  active index up by one.
\<close>

theorem item_insert_selection_counterexample:
  "lb_enabled example_unselected \<and> \<not> lb_is_changing example_unselected
   \<and> in_step example_unselected
   \<and> indexcur example_unselected = -1
   \<and> lb_raised (item_insert ''x'' None False True example_unselected
         :: (string, nat, unit) lb_result) = None
   \<and> lb_items (lb_after (item_insert ''x'' None False True example_unselected
         :: (string, nat, unit) lb_result)) = [''a'', ''b'', ''x'', ''c'']
   \<and> in_step example_listbox
   \<and> indexcur example_listbox = 0
   \<and> lb_raised (item_insert ''x'' (Some 0) False False example_listbox
         :: (string, nat, unit) lb_result) = None
   \<and> indexcur (lb_after (item_insert ''x'' (Some 0) False False example_listbox
         :: (string, nat, unit) lb_result)) = -1"
  by (simp add: listbox_defs example_listbox_def example_unselected_def)

text \<open>
  C5 (amended). Take an enabled listbox in step, whose changing flag is off, and an index
  between 0 and the number of items that fits a list index of the interpreter and is not
  at or before an active last item. Inserting an item at the index and then removing the
  item at the index, both with \<open>keep_active\<close> set, returns normally twice, gives
  back the items list, hence its length, and leaves the listbox in step. The active index
  afterwards is the old one when there was no active item or the index is after it; when
  the index is at or before the active item, it is the old one plus one.
\<close>

theorem insert_then_remove:
  assumes en: "lb_enabled lb" and nc: "\<not> lb_is_changing lb" and st: "in_step lb"
    and i0: "0 \<le> i" and i1: "i \<le> size_items lb" and hi: "i \<le> PY_SSIZE_T_MAX"
    and nl: "\<not> (indexcur lb = index_last lb \<and> i \<le> indexcur lb)"
  shows "\<exists>lb1 (t1 :: ('h, ('x option, unit) evarg) call list) lb2 (t2 :: ('h, ('x option, unit) evarg) call list).
       item_insert item (Some i) n1 True lb = (None, lb1, t1)
     \<and> item_remove i n2 True lb1 = (None, lb2, t2)
     \<and> lb_items lb2 = lb_items lb
     \<and> size_items lb2 = size_items lb
     \<and> indexcur lb2 = (if indexcur lb \<noteq> -1 \<and> i \<le> indexcur lb then indexcur lb + 1 else indexcur lb)
     \<and> in_step lb2"
proof -
  let ?s = "indexcur lb"
  let ?a = "if ?s \<noteq> -1 \<and> i \<le> ?s then ?s + 1 else ?s"
  let ?ys = "take (nat i) (lb_items lb) @ item # drop (nat i) (lb_items lb)"
  have py: "py_insert (case Some i of None \<Rightarrow> ?s | Some i \<Rightarrow> i) item (lb_items lb) = Inr ?ys"
    using i0 i1 hi by (simp add: py_insert_valid size_items_def)
  have len: "length ?ys = Suc (length (lb_items lb))"
    using i0 i1 by (simp add: size_items_def)
  have nl': "\<not> (?s \<noteq> -1 \<and> ?s = index_last lb
               \<and> (case Some i of None \<Rightarrow> ?s | Some i \<Rightarrow> i) \<le> ?s)"
    using nl by simp
  let ?lb1 = "lb\<lparr>lb_items := ?ys, lb_indexcur := ?a, lb_is_resetting := False,
                 lb_is_changing := False, lb_widget_size := length ?ys\<rparr>"
  from item_insert_ok [OF en nc st py len nl', of n1 True]
  obtain t1 :: "('h, ('x option, unit) evarg) call list"
    where r1: "item_insert item (Some i) n1 True lb = (None, ?lb1, t1)"
    by auto
  have rng: "?s = -1 \<or> (0 \<le> ?s \<and> ?s < size_items lb)"
    by (rule indexcur_range)
  have v: "index_is_valid_or_void ?lb1 ?a"
    using rng i0 i1 by (auto simp: index_is_valid_or_void_def index_is_valid_def size_items_def)
  have s1: "indexcur ?lb1 = ?a"
    using v by (auto simp: indexcur_eq index_is_valid_or_void_def)
  have st1: "in_step ?lb1"
    using v by (simp add: in_step_def index_is_valid_or_void_def index_is_valid_def size_items_def)
  have e1: "lb_enabled ?lb1" "\<not> lb_is_changing ?lb1"
    using en by simp_all
  have v1: "index_is_valid ?lb1 i"
    using i0 i1 by (simp add: index_is_valid_def size_items_def)
  have restored: "take (nat i) ?ys @ drop (Suc (nat i)) ?ys = lb_items lb"
    using i0 i1 by (simp add: size_items_def min_def)
  have il1: "index_last ?lb1 - 1 = index_last lb"
    using i0 i1 by (simp add: index_last_def size_items_def)
  have keepa: "(if ?a \<noteq> -1 \<and> ?a > index_last lb then index_last lb else ?a) = ?a"
    using rng nl by (auto simp: index_last_def)
  let ?lb2 = "?lb1\<lparr>lb_items := lb_items lb, lb_indexcur := ?a, lb_is_resetting := False,
                   lb_is_changing := False, lb_widget_size := length (lb_items lb)\<rparr>"
  from item_remove_ok [OF e1 st1 v1, of n2 True]
  obtain t2 :: "('h, ('x option, unit) evarg) call list"
    where r2: "item_remove i n2 True ?lb1 = (None, ?lb2, t2)"
    unfolding s1 il1 restored keepa using i0 i1 by (auto simp: size_items_def)
  have items2: "lb_items ?lb2 = lb_items lb" by simp
  have size2: "size_items ?lb2 = size_items lb" by (simp add: size_items_def)
  have v2: "index_is_valid_or_void ?lb2 ?a"
    using rng nl by (auto simp: index_is_valid_or_void_def index_is_valid_def size_items_def index_last_def)
  have sel2: "indexcur ?lb2 = ?a"
    using v2 by (auto simp: indexcur_eq index_is_valid_or_void_def)
  have st2: "in_step ?lb2"
    using v2 by (simp add: in_step_def index_is_valid_or_void_def index_is_valid_def size_items_def)
  show ?thesis
    apply (rule exI [of _ ?lb1])
    apply (rule exI [of _ t1])
    apply (rule exI [of _ ?lb2])
    apply (rule exI [of _ t2])
    apply (intro conjI)
         apply (rule r1)
        apply (rule r2)
       apply (rule items2)
      apply (rule size2)
     apply (rule sel2)
    apply (rule st2)
    done
qed

theorem insert_then_remove_witness:
  "lb_enabled example_listbox \<and> \<not> lb_is_changing example_listbox \<and> in_step example_listbox
   \<and> (0::int) \<le> 0 \<and> 0 \<le> size_items example_listbox \<and> 0 \<le> PY_SSIZE_T_MAX
   \<and> indexcur example_listbox = 0 \<and> index_last example_listbox = 2
   \<and> (\<exists>lb1 (t1 :: (nat, (unit option, unit) evarg) call list) lb2
         (t2 :: (nat, (unit option, unit) evarg) call list).
         item_insert ''x'' (Some 0) False True example_listbox = (None, lb1, t1)
       \<and> item_remove 0 False True lb1 = (None, lb2, t2)
       \<and> lb_items lb2 = [''a'', ''b'', ''c'']
       \<and> size_items lb2 = 3
       \<and> indexcur lb2 = 1
       \<and> in_step lb2)"
proof -
  note f = example_listbox_facts
  have h3: "(0::int) \<le> 0" by simp
  have h4: "0 \<le> size_items example_listbox" by (simp add: f)
  have h5: "0 \<le> PY_SSIZE_T_MAX" by (simp add: PY_SSIZE_T_MAX_def)
  have nl: "\<not> (indexcur example_listbox = index_last example_listbox \<and> 0 \<le> indexcur example_listbox)"
    by (simp add: f)
  show ?thesis
    using f(1-5) h4 h5
      insert_then_remove [OF f(1) f(2) f(3) h3 h4 h5 nl, of "''x''" False False, where ?'x = unit]
    by (simp add: f)
qed

text \<open>
  C5 fails as stated: with the first of three items active, inserting at index 0 and
  removing at index 0 restores the three items but leaves the second item active.
\<close>

theorem insert_then_remove_counterexample:
  "lb_enabled example_listbox \<and> \<not> lb_is_changing example_listbox \<and> in_step example_listbox
   \<and> index_is_valid example_listbox 0
   \<and> indexcur example_listbox = 0
   \<and> lb_raised (item_insert ''x'' (Some 0) False True example_listbox
         :: (string, nat, unit) lb_result) = None
   \<and> lb_raised (item_remove 0 False True
         (lb_after (item_insert ''x'' (Some 0) False True example_listbox
            :: (string, nat, unit) lb_result))
         :: (string, nat, unit) lb_result) = None
   \<and> size_items (lb_after (item_remove 0 False True
         (lb_after (item_insert ''x'' (Some 0) False True example_listbox
            :: (string, nat, unit) lb_result))
         :: (string, nat, unit) lb_result)) = size_items example_listbox
   \<and> indexcur (lb_after (item_remove 0 False True
         (lb_after (item_insert ''x'' (Some 0) False True example_listbox
            :: (string, nat, unit) lb_result))
         :: (string, nat, unit) lb_result)) = 1"
  by (simp add: listbox_defs example_listbox_def)

text \<open>
  Outside these conditions \<open>item_insert\<close> raises after it has changed the items.
  With the last item active and an insertion at or before it, \<open>indexcur_set\<close> is
  called before the widget is redrawn and configures a row the widget does not have yet:
  the toolkit's error leaves the changing flag on. An index of \<open>2 ^ 63\<close> is refused
  by \<open>list.insert\<close>.
\<close>

lemma item_insert_last_row:
  "in_step example_last_active \<and> indexcur example_last_active = index_last example_last_active
   \<and> (item_insert ''x'' None False True example_last_active :: (string, nat, unit) lb_result)
       = (Some TclError,
          example_last_active\<lparr>lb_items := [''a'', ''b'', ''x'', ''c''], lb_indexcur := 3,
            lb_is_changing := True\<rparr>, [])"
  by (simp add: listbox_defs example_listbox_def example_last_active_def)

lemma item_insert_overflow:
  "(item_insert ''x'' (Some (2 ^ 63)) False True example_listbox :: (string, nat, unit) lb_result)
     = (Some OverflowError, example_listbox, [])"
  by (simp add: listbox_defs example_listbox_def)

section \<open>Results about the text entry\<close>

lemma text_set_rejected:
  assumes "\<forall>v. en_validator e v = Inr False"
  shows "text_set t n na iv e = (Some ValueError, e, [])"
  using assms by (simp add: text_set_def text_is_valid_def)

lemma validator_wrapper_rejected:
  assumes "\<forall>v. en_validator e v = Inr False"
  shows "validator_wrapper v e
           = (if en_is_changing e then Inl ValueError else Inr False, e, [])"
  using assms by (simp add: validator_wrapper_def)

lemma key_stroke_rejected:
  assumes "\<forall>v. en_validator e v = Inr False"
  shows "en_text (key_stroke v e) = en_text e"
    and "en_validator (key_stroke v e) = en_validator e"
  using assms by (simp_all add: key_stroke_def validator_wrapper_def)

lemma attempt_run_rejected:
  assumes "\<forall>v. en_validator e v = Inr False"
  shows "en_text (attempt_run a e) = en_text e"
    and "en_validator (attempt_run a e) = en_validator e"
  using assms by (cases a; simp add: text_set_rejected key_stroke_rejected)+

lemma attempts_run_rejected:
  assumes "\<forall>v. en_validator e v = Inr False"
  shows "en_text (attempts_run as e) = en_text e"
  using assms
proof (induction as arbitrary: e)
  case Nil
  show ?case by simp
next
  case (Cons a as)
  have "\<forall>v. en_validator (attempt_run a e) v = Inr False"
    using Cons.prems by (simp add: attempt_run_rejected(2))
  from Cons.IH [OF this] show ?case
    using Cons.prems by (simp add: attempt_run_rejected(1))
qed

text \<open>
  C6. When the validator of an entry answers false to every value, every \<open>text_set\<close>
  call raises \<open>ValueError\<close> after asking the validator and before touching the
  entry or notifying anyone, the validator wrapper called at a key stroke answers false
  (or raises, when a change is going on) and changes nothing, and after any sequence of \<open>text_set\<close> calls and key strokes,
  with any values and arguments, \<open>text\<close> returns what it returned before.
\<close>

theorem rejecting_validator_keeps_text:
  assumes "\<forall>v. en_validator e v = Inr False"
  shows "text_of (attempts_run (as :: 'x attempt list) e) = text_of e
       \<and> text_set t n (na :: 'x option) iv e = (Some ValueError, e, [])
       \<and> validator_wrapper v e
           = (if en_is_changing e then Inl ValueError else Inr False, e,
              ([] :: ('h, ('x option, 'h entry) evarg) call list))"
proof -
  have a: "en_text (attempts_run as e) = en_text e"
    by (rule attempts_run_rejected [OF assms])
  have b: "text_set t n na iv e = (Some ValueError, e, [])"
    by (rule text_set_rejected [OF assms])
  have c: "validator_wrapper v e
           = (if en_is_changing e then Inl ValueError else Inr False, e,
              ([] :: ('h, ('x option, 'h entry) evarg) call list))"
    by (rule validator_wrapper_rejected [OF assms])
  show ?thesis
    using a b c by (simp add: text_of_def)
qed

theorem rejecting_validator_keeps_text_witness:
  "(\<forall>v. en_validator example_entry v = Inr False)
   \<and> text_of example_entry = ''old''
   \<and> text_of (attempts_run
        [TextSet ''a'' True (None :: unit option) False, KeyStroke ''b'',
         TextSet ''c'' False None True] example_entry) = ''old''
   \<and> text_set ''a'' True (None :: unit option) False example_entry
        = (Some ValueError, example_entry, [])"
proof -
  have h: "\<forall>v. en_validator example_entry v = Inr False"
    by (simp add: example_entry_def)
  have t: "text_of example_entry = ''old''"
    by (simp add: text_of_def example_entry_def)
  have r: "text_of (attempts_run
        [TextSet ''a'' True (None :: unit option) False, KeyStroke ''b'',
         TextSet ''c'' False None True] example_entry) = text_of example_entry
   \<and> text_set ''a'' True (None :: unit option) False example_entry
        = (Some ValueError, example_entry, [])"
    using rejecting_validator_keeps_text [OF h,
        of "[TextSet ''a'' True (None :: unit option) False, KeyStroke ''b'',
             TextSet ''c'' False None True]" "''a''" True "None :: unit option" False "''b''"]
    by blast
  show ?thesis
    using h t r by (simp only: simp_thms)
qed

section \<open>Results about the menu tree\<close>

lemmas menu_defs =
  add_menu_def add_command_def add_item_def add_info_dict_def widget_factory_def
  item_is_menu_def item_exists_def item_child_index_last_def item_child_indexes_def
  item_child_index_last_internal_def menu_def id_to_full_default_def id_to_label_default_def
  rpartition_def native_index_end_def native_entries_def native_insert_def native_delete_def
  item_ids_def item_index_def dict_del_def INFO_K_ID_V_TOP_def MenuTree_init_def and_then_def
  List.map_filter_def Let_def

lemma scenario_add:
  "and_then (add_menu ''/'' ''A'' False None None None MenuTree_init)
     (add_command ''/A'' ''B'' False None None None) = Inr tree_AB"
  by (simp add: menu_defs tree_AB_def)

lemma scenario_remove:
  "remove_item (Suc (Suc depth)) ''/A'' tree_AB = Inr tree_removed"
  by (simp add: menu_defs tree_AB_def tree_removed_def)

lemma scenario_add_again:
  "add_menu ''/'' ''C'' False None None None tree_removed = Inr tree_C"
  by (simp add: menu_defs tree_removed_def tree_C_def)

lemma siblings_add:
  "and_then (and_then (and_then (add_menu ''/'' ''A'' False None None None MenuTree_init)
     (add_menu ''/'' ''D'' False None None None))
     (add_command ''/'' ''E'' False None None None))
     (add_command ''/A'' ''B'' False None None None) = Inr tree_ADEB"
  by (simp add: menu_defs tree_ADEB_def)

lemma siblings_remove:
  "remove_item (Suc (Suc depth)) ''/A'' tree_ADEB = Inr tree_DE"
  by (simp add: menu_defs tree_ADEB_def tree_DE_def)

lemma siblings_add_again:
  "add_menu ''/'' ''C'' False None None None tree_DE = Inr tree_DEC"
  by (simp add: menu_defs tree_DE_def tree_DEC_def)

text \<open>
  C7. On a fresh tree, \<open>add_menu('/', 'A')\<close> and \<open>add_command('/A', 'B')\<close>
  return normally and give the items \<open>/\<close>, \<open>/A\<close> and \<open>/A/B\<close>: the full id
  of any child of the top menu is the top id followed by the child's own id, with a
  single separator. \<open>remove_item('/A')\<close>, at any
  call depth that allows one nested call, then leaves only the top menu, and
  \<open>add_menu('/', 'C')\<close> after it puts \<open>/C\<close> at index 0. With the siblings
  \<open>/D\<close> and \<open>/E\<close> after \<open>/A\<close> in the top menu, at indexes 1 and 2, removing
  \<open>/A\<close> removes \<open>/A/B\<close> too and moves the siblings to indexes 0 and 1, and
  \<open>/C\<close> added after it gets index 2, the last entry of the top menu widget.
\<close>

theorem menu_tree_scenario:
  "and_then (add_menu ''/'' ''A'' False None None None MenuTree_init)
     (add_command ''/A'' ''B'' False None None None) = Inr tree_AB
   \<and> id_to_full_default x ''/'' ''/'' = ''/'' @ x
   \<and> id_to_full_default ''A'' ''/'' ''/'' = ''/A''
   \<and> id_to_full_default ''B'' ''/A'' ''/'' = ''/A/B''
   \<and> item_ids tree_AB = [''/'', ''/A'', ''/A/B'']
   \<and> remove_item (Suc (Suc depth)) ''/A'' tree_AB = Inr tree_removed
   \<and> item_ids tree_removed = [''/'']
   \<and> add_menu ''/'' ''C'' False None None None tree_removed = Inr tree_C
   \<and> item_ids tree_C = [''/'', ''/C'']
   \<and> item_index tree_C ''/C'' = Inr (Some 0)
   \<and> native_entries (mt_store tree_C) 0 = [Cascade 2 ''C'']
   \<and> and_then (and_then (and_then (add_menu ''/'' ''A'' False None None None MenuTree_init)
         (add_menu ''/'' ''D'' False None None None))
         (add_command ''/'' ''E'' False None None None))
         (add_command ''/A'' ''B'' False None None None) = Inr tree_ADEB
   \<and> item_index tree_ADEB ''/A'' = Inr (Some 0)
   \<and> item_index tree_ADEB ''/D'' = Inr (Some 1)
   \<and> item_index tree_ADEB ''/E'' = Inr (Some 2)
   \<and> remove_item (Suc (Suc depth)) ''/A'' tree_ADEB = Inr tree_DE
   \<and> item_ids tree_DE = [''/'', ''/D'', ''/E'']
   \<and> item_index tree_DE ''/D'' = Inr (Some 0)
   \<and> item_index tree_DE ''/E'' = Inr (Some 1)
   \<and> add_menu ''/'' ''C'' False None None None tree_DE = Inr tree_DEC
   \<and> item_index tree_DEC ''/C'' = Inr (Some 2)
   \<and> native_entries (mt_store tree_DEC) 0 = [Cascade 2 ''D'', CommandEntry ''E'', Cascade 3 ''C'']"
proof -
  have ids: "item_ids tree_AB = [''/'', ''/A'', ''/A/B'']" "item_ids tree_removed = [''/'']"
      "item_ids tree_C = [''/'', ''/C'']" "item_ids tree_DE = [''/'', ''/D'', ''/E'']"
    by (simp_all add: item_ids_def tree_AB_def tree_removed_def tree_C_def tree_DE_def)
  have full: "id_to_full_default x ''/'' ''/'' = ''/'' @ x"
      "id_to_full_default ''A'' ''/'' ''/'' = ''/A''"
      "id_to_full_default ''B'' ''/A'' ''/'' = ''/A/B''"
    by (simp_all add: id_to_full_default_def INFO_K_ID_V_TOP_def)
  have idx: "item_index tree_C ''/C'' = Inr (Some 0)"
      "item_index tree_ADEB ''/A'' = Inr (Some 0)"
      "item_index tree_ADEB ''/D'' = Inr (Some 1)"
      "item_index tree_ADEB ''/E'' = Inr (Some 2)"
      "item_index tree_DE ''/D'' = Inr (Some 0)"
      "item_index tree_DE ''/E'' = Inr (Some 1)"
      "item_index tree_DEC ''/C'' = Inr (Some 2)"
    by (simp_all add: item_index_def tree_C_def tree_ADEB_def tree_DE_def tree_DEC_def)
  have nat: "native_entries (mt_store tree_C) 0 = [Cascade 2 ''C'']"
      "native_entries (mt_store tree_DEC) 0 = [Cascade 2 ''D'', CommandEntry ''E'', Cascade 3 ''C'']"
    by (simp_all add: native_entries_def tree_C_def tree_DEC_def)
  show ?thesis
    using scenario_add scenario_remove [of depth] scenario_add_again
      siblings_add siblings_remove [of depth] siblings_add_again ids full idx nat
    by (simp only: simp_thms)
qed

section \<open>Results about the selection memo\<close>

lemma items_set_ok:
  assumes "lb_enabled lb" "\<not> lb_is_changing lb"
  shows "\<exists>t :: ('h, ('x option, unit) evarg) call list. items_set its n False lb =
      (None, lb\<lparr>lb_items := its, lb_indexcur := -1, lb_is_changing := False,
                lb_widget_size := length its\<rparr>, t)"
  using assms
  by (simp add: items_set_def is_enabled_def Let_def listbox_widget_update_def)

lemma recover_after_items_set:
  fixes ed :: "'h editor"
  assumes "lb_enabled (ed_child_keys_listbox ed)" "\<not> lb_is_changing (ed_child_keys_listbox ed)"
    and "lb_indexcur (ed_child_keys_listbox ed) = -1"
    and "lb_widget_size (ed_child_keys_listbox ed) = length (lb_items (ed_child_keys_listbox ed))"
    and "ed_indexcur_memo ed (path (ed_path_nav ed)) = Some m"
    and "-1 \<le> m"
  shows "\<exists>ed' t. child_keys_listbox_indexcur_recover ed = (None, ed', t)
     \<and> lb_items (ed_child_keys_listbox ed') = lb_items (ed_child_keys_listbox ed)
     \<and> (if m > index_last (ed_child_keys_listbox ed)
         then indexcur (ed_child_keys_listbox ed') = -1
            \<and> ed_indexcur_memo ed' = (ed_indexcur_memo ed)(path (ed_path_nav ed) := None)
         else indexcur (ed_child_keys_listbox ed') = m
            \<and> ed_indexcur_memo ed' = ed_indexcur_memo ed)"
proof -
  let ?lb = "ed_child_keys_listbox ed"
  have c: "indexcur ?lb = -1"
    using assms(3) by (simp add: indexcur_eq index_is_valid_def)
  show ?thesis
  proof (cases "m = -1")
    case True
    then show ?thesis
      using assms c by (simp add: child_keys_listbox_indexcur_recover_def Let_def index_last_def size_items_def)
  next
    case False
    note ne = this
    show ?thesis
    proof (cases "m > index_last ?lb")
      case True
      then show ?thesis
        using assms c ne by (simp add: child_keys_listbox_indexcur_recover_def Let_def)
    next
      case False
      then have v: "index_is_valid_or_void ?lb m"
        using assms(6) ne by (simp add: index_is_valid_or_void_def index_is_valid_def index_last_def)
      have v': "index_is_valid ?lb m"
        using False assms(6) ne by (simp add: index_is_valid_def index_last_def)
      have o: "index_is_valid ?lb (lb_indexcur ?lb) \<longrightarrow> widget_has_row ?lb (lb_indexcur ?lb)"
        using assms(3) by (simp add: index_is_valid_def)
      have w: "m \<noteq> -1 \<longrightarrow> widget_has_row ?lb m"
        using v' assms(4) by (simp add: widget_has_row_def index_is_valid_def size_items_def)
      from indexcur_set_ok [OF assms(1,2) v o w, of False True "None :: unit option"]
      obtain t :: "('h, (unit option, unit) evarg) call list" where
        r: "indexcur_set m False True None ?lb =
           (None, ?lb\<lparr>lb_indexcur := m, lb_is_resetting := False, lb_is_changing := False\<rparr>, t)"
        by blast
      have s: "indexcur (?lb\<lparr>lb_indexcur := m, lb_is_resetting := False, lb_is_changing := False\<rparr>) = m"
        using v' by (simp add: indexcur_eq index_is_valid_def size_items_def)
      show ?thesis
        using assms c ne False r s
        by (simp add: child_keys_listbox_indexcur_recover_def Let_def)
    qed
  qed
qed

text \<open>
  C8. Let the active child index be remembered at a path, and let the editor later be
  back at that path with the memo entry of the path as it was left, whatever became of
  the entries of other paths, its child list enabled and not changing. When the
  remembered index was that of the parent entry (index 0 at a path other than the root),
  remembering created or changed no memo entry. Otherwise the handler of the path change
  returns normally, shows the sorted child names (after the parent entry, except at the
  root), and: when the remembered index is greater than the last index of this list, no
  item is active and the memo entry of the path is deleted, the other entries being kept;
  else the remembered index is the active index and the memo is unchanged.
\<close>

theorem selection_memo:
  fixes ed0 ed2 :: "'h editor"
  assumes en: "lb_enabled (ed_child_keys_listbox ed2)"
    and nc: "\<not> lb_is_changing (ed_child_keys_listbox ed2)"
    and same_path: "path (ed_path_nav ed2) = path (ed_path_nav ed0)"
    and same_entry: "ed_indexcur_memo ed2 (path (ed_path_nav ed0))
        = ed_indexcur_memo (child_keys_listbox_indexcur_remember ed0) (path (ed_path_nav ed0))"
  shows "(path (ed_path_nav ed0) \<noteq> ROOT \<and> indexcur (ed_child_keys_listbox ed0) = 0 \<longrightarrow>
            ed_indexcur_memo (child_keys_listbox_indexcur_remember ed0) = ed_indexcur_memo ed0)
       \<and> (\<not> (path (ed_path_nav ed0) \<noteq> ROOT \<and> indexcur (ed_child_keys_listbox ed0) = 0) \<longrightarrow>
            (\<exists>ed3 t. child_keys_listbox_on_nav_path_change lower names ed2 = (None, ed3, t)
               \<and> lb_items (ed_child_keys_listbox ed3)
                    = (if path (ed_path_nav ed0) \<noteq> ROOT
                       then ''..'' # sort_key lower (case names of None \<Rightarrow> [] | Some ns \<Rightarrow> ns)
                       else sort_key lower (case names of None \<Rightarrow> [] | Some ns \<Rightarrow> ns))
               \<and> (if indexcur (ed_child_keys_listbox ed0) > index_last (ed_child_keys_listbox ed3)
                   then indexcur (ed_child_keys_listbox ed3) = -1
                      \<and> ed_indexcur_memo ed3
                          = (ed_indexcur_memo ed2)(path (ed_path_nav ed0) := None)
                   else indexcur (ed_child_keys_listbox ed3) = indexcur (ed_child_keys_listbox ed0)
                      \<and> ed_indexcur_memo ed3 = ed_indexcur_memo ed2)))"
proof (intro conjI impI)
  assume "path (ed_path_nav ed0) \<noteq> ROOT \<and> indexcur (ed_child_keys_listbox ed0) = 0"
  then show "ed_indexcur_memo (child_keys_listbox_indexcur_remember ed0) = ed_indexcur_memo ed0"
    by (simp add: child_keys_listbox_indexcur_remember_def)
next
  let ?P = "path (ed_path_nav ed0)"
  let ?i = "indexcur (ed_child_keys_listbox ed0)"
  let ?ns = "sort_key lower (case names of None \<Rightarrow> [] | Some ns \<Rightarrow> ns)"
  assume rem: "\<not> (?P \<noteq> ROOT \<and> ?i = 0)"
  then have m: "ed_indexcur_memo ed2 (path (ed_path_nav ed2)) = Some ?i"
    unfolding same_path same_entry
    by (auto simp: child_keys_listbox_indexcur_remember_def Let_def)
  have ge: "-1 \<le> ?i"
    using indexcur_range [of "ed_child_keys_listbox ed0"] by auto
  let ?its = "if ?P \<noteq> ROOT then ''..'' # ?ns else ?ns"
  have ins: "(if path (ed_path_nav ed2) \<noteq> ROOT then py_insert 0 ''..'' ?ns else Inr ?ns) = Inr ?its"
    by (simp add: same_path py_insert_def PY_SSIZE_T_MAX_def)
  let ?lb' = "(ed_child_keys_listbox ed2)\<lparr>lb_items := ?its, lb_indexcur := -1,
                 lb_is_changing := False, lb_widget_size := length ?its\<rparr>"
  from items_set_ok [OF en nc, of ?its True]
  obtain t1 :: "('h, (unit option, unit) evarg) call list" where
    s: "items_set ?its True False (ed_child_keys_listbox ed2) = (None, ?lb', t1)"
    by blast
  let ?ed = "ed2\<lparr>ed_child_keys_listbox := ?lb'\<rparr>"
  have h: "lb_enabled (ed_child_keys_listbox ?ed)" "\<not> lb_is_changing (ed_child_keys_listbox ?ed)"
      "lb_indexcur (ed_child_keys_listbox ?ed) = -1"
      "lb_widget_size (ed_child_keys_listbox ?ed) = length (lb_items (ed_child_keys_listbox ?ed))"
      "ed_indexcur_memo ?ed (path (ed_path_nav ?ed)) = Some ?i"
    using en m by simp_all
  from recover_after_items_set [OF h ge]
  obtain ed3 t2 where
    r: "child_keys_listbox_indexcur_recover ?ed = (None, ed3, t2)"
    and it: "lb_items (ed_child_keys_listbox ed3) = lb_items (ed_child_keys_listbox ?ed)"
    and c: "if ?i > index_last (ed_child_keys_listbox ?ed)
         then indexcur (ed_child_keys_listbox ed3) = -1
            \<and> ed_indexcur_memo ed3 = (ed_indexcur_memo ?ed)(path (ed_path_nav ?ed) := None)
         else indexcur (ed_child_keys_listbox ed3) = ?i
            \<and> ed_indexcur_memo ed3 = ed_indexcur_memo ?ed"
    by blast
  have l: "index_last (ed_child_keys_listbox ed3) = index_last (ed_child_keys_listbox ?ed)"
    using it by (simp add: index_last_def size_items_def)
  have run: "child_keys_listbox_on_nav_path_change lower names ed2 = (None, ed3, t1 @ t2)"
    using s r ins by (simp add: child_keys_listbox_on_nav_path_change_def Let_def)
  have it': "lb_items (ed_child_keys_listbox ed3) = ?its"
    unfolding it by simp
  have c': "if ?i > index_last (ed_child_keys_listbox ed3)
         then indexcur (ed_child_keys_listbox ed3) = -1
            \<and> ed_indexcur_memo ed3 = (ed_indexcur_memo ed2)(?P := None)
         else indexcur (ed_child_keys_listbox ed3) = ?i
            \<and> ed_indexcur_memo ed3 = ed_indexcur_memo ed2"
    using c unfolding l by (simp add: same_path)
  show "\<exists>ed3 t. child_keys_listbox_on_nav_path_change lower names ed2 = (None, ed3, t)
               \<and> lb_items (ed_child_keys_listbox ed3) = ?its
               \<and> (if ?i > index_last (ed_child_keys_listbox ed3)
                   then indexcur (ed_child_keys_listbox ed3) = -1
                      \<and> ed_indexcur_memo ed3 = (ed_indexcur_memo ed2)(?P := None)
                   else indexcur (ed_child_keys_listbox ed3) = ?i
                      \<and> ed_indexcur_memo ed3 = ed_indexcur_memo ed2)"
    apply (rule exI [of _ ed3])
    apply (rule exI [of _ "t1 @ t2"])
    apply (intro conjI)
      apply (rule run)
     apply (rule it')
    apply (rule c')
    done
qed

lemma example_editor_facts:
  "lb_enabled (ed_child_keys_listbox example_editor_back)"
  "\<not> lb_is_changing (ed_child_keys_listbox example_editor_back)"
  "path (ed_path_nav example_editor_back) = path (ed_path_nav example_editor)"
  "ed_indexcur_memo example_editor_back (path (ed_path_nav example_editor))
     = ed_indexcur_memo (child_keys_listbox_indexcur_remember example_editor)
         (path (ed_path_nav example_editor))"
  "path (ed_path_nav example_editor) = ''HKEY_USERS''"
  "indexcur (ed_child_keys_listbox example_editor) = 2"
  "ed_indexcur_memo example_editor_back = [''HKEY_USERS'' \<mapsto> 2, ''HKEY_CLASSES_ROOT'' \<mapsto> 1]"
  "path (ed_path_nav example_editor_up) = ''HKEY_USERS''"
  "indexcur (ed_child_keys_listbox example_editor_up) = 0"
  "ROOT = []"
  by (simp_all add: child_keys_listbox_indexcur_remember_def example_editor_def example_editor_up_def
      example_editor_back_def path_def ROOT_def indexcur_eq index_is_valid_def size_items_def Let_def)

theorem selection_memo_witness:
  "lb_enabled (ed_child_keys_listbox example_editor_back)
   \<and> \<not> lb_is_changing (ed_child_keys_listbox example_editor_back)
   \<and> path (ed_path_nav example_editor_back) = path (ed_path_nav example_editor)
   \<and> ed_indexcur_memo example_editor_back (path (ed_path_nav example_editor))
        = ed_indexcur_memo (child_keys_listbox_indexcur_remember example_editor)
            (path (ed_path_nav example_editor))
   \<and> ed_indexcur_memo example_editor_back ''HKEY_CLASSES_ROOT''
        \<noteq> ed_indexcur_memo (child_keys_listbox_indexcur_remember example_editor) ''HKEY_CLASSES_ROOT''
   \<and> path (ed_path_nav example_editor) \<noteq> ROOT
   \<and> indexcur (ed_child_keys_listbox example_editor) = 2
   \<and> (\<exists>ed3 t. child_keys_listbox_on_nav_path_change (\<lambda>s. s) (Some [''b'', ''a''])
          example_editor_back = (None, ed3, t)
        \<and> length (lb_items (ed_child_keys_listbox ed3)) = 3
        \<and> indexcur (ed_child_keys_listbox ed3) = 2
        \<and> ed_indexcur_memo ed3 ''HKEY_USERS'' = Some 2
        \<and> ed_indexcur_memo ed3 ''HKEY_CLASSES_ROOT'' = Some 1)
   \<and> (\<exists>ed3 t. child_keys_listbox_on_nav_path_change (\<lambda>s. s) (Some [''a''])
          example_editor_back = (None, ed3, t)
        \<and> length (lb_items (ed_child_keys_listbox ed3)) = 2
        \<and> indexcur (ed_child_keys_listbox ed3) = -1
        \<and> ed_indexcur_memo ed3 ''HKEY_USERS'' = None
        \<and> ed_indexcur_memo ed3 ''HKEY_CLASSES_ROOT'' = Some 1)
   \<and> indexcur (ed_child_keys_listbox example_editor_up) = 0
   \<and> ed_indexcur_memo (child_keys_listbox_indexcur_remember example_editor_up)
        = ed_indexcur_memo example_editor_up"
proof -
  note f = example_editor_facts
  have d: "ed_indexcur_memo example_editor_back ''HKEY_CLASSES_ROOT''
        \<noteq> ed_indexcur_memo (child_keys_listbox_indexcur_remember example_editor) ''HKEY_CLASSES_ROOT''"
    by (simp add: child_keys_listbox_indexcur_remember_def example_editor_def
        example_editor_back_def path_def ROOT_def indexcur_eq index_is_valid_def size_items_def Let_def)
  have a: "\<exists>ed3 t. child_keys_listbox_on_nav_path_change (\<lambda>s. s) (Some [''b'', ''a''])
          example_editor_back = (None, ed3, t)
        \<and> length (lb_items (ed_child_keys_listbox ed3)) = 3
        \<and> indexcur (ed_child_keys_listbox ed3) = 2
        \<and> ed_indexcur_memo ed3 ''HKEY_USERS'' = Some 2
        \<and> ed_indexcur_memo ed3 ''HKEY_CLASSES_ROOT'' = Some 1"
    using selection_memo [OF f(1) f(2) f(3) f(4), of "\<lambda>s. s" "Some [''b'', ''a'']"]
    by (auto simp: f index_last_def size_items_def)
  have b: "\<exists>ed3 t. child_keys_listbox_on_nav_path_change (\<lambda>s. s) (Some [''a''])
          example_editor_back = (None, ed3, t)
        \<and> length (lb_items (ed_child_keys_listbox ed3)) = 2
        \<and> indexcur (ed_child_keys_listbox ed3) = -1
        \<and> ed_indexcur_memo ed3 ''HKEY_USERS'' = None
        \<and> ed_indexcur_memo ed3 ''HKEY_CLASSES_ROOT'' = Some 1"
    using selection_memo [OF f(1) f(2) f(3) f(4), of "\<lambda>s. s" "Some [''a'']"]
    by (auto simp: f index_last_def size_items_def)
  have c: "ed_indexcur_memo (child_keys_listbox_indexcur_remember example_editor_up)
        = ed_indexcur_memo example_editor_up"
    using selection_memo [of "child_keys_listbox_indexcur_remember example_editor_up"
        example_editor_up "\<lambda>s. s" None]
    by (simp add: f child_keys_listbox_indexcur_remember_def example_editor_up_def example_editor_def
        path_def indexcur_eq index_is_valid_def size_items_def ROOT_def)
  have p: "path (ed_path_nav example_editor) \<noteq> ROOT"
    by (simp add: f)
  show ?thesis
    by (intro conjI) (rule f(1) f(2) f(3) f(4) d p f(6) a b f(9) c)+
qed

end
